(* ===== verification/Prelude.thy ===== *)
theory Prelude
  imports Main "HOL-Library.Sublist" "HOL-Library.Product_Lexorder" "HOL-Library.Multiset"
    "HOL-Library.Code_Target_Nat"
begin

text \<open>
  Shared vocabulary of the Trueka development. JavaScript strings are sequences of
  UTF-16 code units; the model keeps each code unit as a \<open>nat\<close> (an upper bound
  \<open>< 2^16\<close> is a predicate, \<open>code_units_ok\<close>, rather than a word type, since no
  arithmetic of the program can overflow a code unit). \<open>ascii\<close> turns an Isabelle
  string literal into the code units of the same ASCII text, so that witnesses can be
  written with \<open>''...''\<close> literals. The collection \<open>model_defs\<close> gathers the
  unfolding equations of the model's operations; the list lemmas below are the generic
  facts the component proofs share.
\<close>

named_theorems model_defs "unfolding equations of the operations of the model"

type_synonym code_unit = nat
type_synonym ustr = "code_unit list"

definition ascii :: "string \<Rightarrow> ustr" where
  "ascii s = map of_char s"

definition code_units_ok :: "ustr \<Rightarrow> bool" where
  "code_units_ok s \<longleftrightarrow> (\<forall>c\<in>set s. c < 65536)"

lemma ascii_Nil [simp]: "ascii [] = []"
  and ascii_Cons [simp]: "ascii (c # s) = of_char c # ascii s"
  by (simp_all add: ascii_def)

lemma code_units_ok_simps [simp]:
  "code_units_ok []"
  "code_units_ok (c # s) \<longleftrightarrow> c < 65536 \<and> code_units_ok s"
  "code_units_ok (s @ t) \<longleftrightarrow> code_units_ok s \<and> code_units_ok t"
  by (auto simp: code_units_ok_def)

lemma code_units_ok_concat [simp]:
  "code_units_ok (concat ss) \<longleftrightarrow> (\<forall>s\<in>set ss. code_units_ok s)"
  by (auto simp: code_units_ok_def)

lemma code_units_ok_ascii [simp]: "code_units_ok (ascii s)"
proof (induction s)
  case Nil
  then show ?case by simp
next
  case (Cons c s)
  have "of_char c < (65536::nat)"
    using nat_of_char_less_256 [of c] by linarith
  with Cons show ?case by simp
qed

subsection \<open>Lists\<close>

text \<open>
  A nested comprehension \<open>[(i, j). i \<leftarrow> I, j \<leftarrow> J i]\<close> over strictly increasing
  lists enumerates its pairs in strictly increasing lexicographic order: the shape of
  every \<open>flatMap\<close> over two filtered lists.
\<close>

lemma sorted_wrt_concat_pairs:
  assumes "sorted_wrt (<) (I :: 'a::linorder list)"
    and "\<And>i. sorted_wrt (<) (J i :: 'b::linorder list)"
  shows "sorted_wrt (<) (concat (map (\<lambda>i. map (Pair i) (J i)) I))"
  using assms(1)
proof (induction I)
  case Nil
  then show ?case by simp
next
  case (Cons i I)
  have head: "sorted_wrt (<) (map (Pair i) (J i))"
    using assms(2) [of i] by (simp add: sorted_wrt_map less_prod_def)
  have tail: "sorted_wrt (<) (concat (map (\<lambda>i. map (Pair i) (J i)) I))"
    using Cons by simp
  have across: "p < q" if "p \<in> set (map (Pair i) (J i))"
    and "q \<in> set (concat (map (\<lambda>i. map (Pair i) (J i)) I))" for p q
    using that Cons.prems by (auto simp: less_prod_def)
  show ?case
    using head tail across by (simp add: sorted_wrt_append)
qed

lemma filter_upt_nth:
  "filter P xs = map (nth xs) (filter (\<lambda>i. P (xs ! i)) [0..<length xs])"
proof (induction xs rule: rev_induct)
  case Nil
  then show ?case by simp
next
  case (snoc x xs)
  let ?L = "filter (\<lambda>i. P (xs ! i)) [0..<length xs]"
  have "filter (\<lambda>i. P ((xs @ [x]) ! i)) [0..<length xs] = ?L"
    by (rule filter_cong) (auto simp: nth_append)
  moreover have "map ((!) (xs @ [x])) ?L = map ((!) xs) ?L"
    by (rule map_cong) (auto simp: nth_append)
  ultimately show ?case using snoc by simp
qed

lemma length_filter_map_eq:
  "length (filter ((=) k \<circ> f) xs) = length (filter (\<lambda>x. f x = k) xs)"
  by (induction xs) auto

lemma sum_list_map_group:
  "sum_list (map (\<lambda>x. g (f x)) xs) = (\<Sum>k\<in>set (map f xs). length (filter (\<lambda>x. f x = k) xs) * g k)"
proof -
  have "sum_list (map (\<lambda>x. g (f x)) xs) = sum_list (map g (map f xs))"
    by (simp add: comp_def)
  also have "\<dots> = (\<Sum>k\<in>set (map f xs). count_list (map f xs) k * g k)"
    by (rule sum_list_map_eq_sum_count)
  also have "\<dots> = (\<Sum>k\<in>set (map f xs). length (filter (\<lambda>x. f x = k) xs) * g k)"
    by (simp add: count_list_eq_length_filter filter_map length_filter_map_eq)
  finally show ?thesis .
qed

end
