(* ===== verification/JS_String.thy ===== *)
theory JS_String
  imports Prelude
begin

text \<open>
  The two JavaScript string operations the component relies on: truthiness of a
  string (the guard \<open>newSkill.name && newSkill.user\<close> of \<open>handleAddSkill\<close>,
  src/src/App.jsx line 26) and \<open>String.prototype.toLowerCase\<close> (the comparison of
  \<open>getMatches\<close>, line 42). Both are ECMAScript built-ins, modelled from the language
  specification. \<open>toLowerCase\<close> maps each code point by the Unicode default lower-case
  mapping. The model's table \<open>lower_rows\<close> holds the simple lower-case mappings of the
  cased letters of the Basic Multilingual Plane in the Latin (Basic, Latin-1, Extended-A,
  Extended-B, Extended Additional, Extended-C), Greek and Coptic, Greek Extended, Cyrillic
  (with Supplement and Extended-B), Armenian, Georgian, Cherokee, Glagolitic and Coptic
  blocks, the letterlike symbols, Roman numerals, circled letters and fullwidth Latin
  letters, plus the one multi-unit mapping U+0130 to U+0069 U+0307 of SpecialCasing.
  Code units outside the table are left unchanged, which is where the model is coarser
  than the engine: Latin Extended-D and -E, a few Unicode additions after version 14, and
  the letters outside the Basic Multilingual Plane (Deseret, Osage, Adlam and others),
  which JavaScript strings hold as surrogate pairs that the engine lower-cases as one code
  point. The context-dependent rule Final_Sigma of SpecialCasing (a capital sigma at the
  end of a word lower-cases to U+03C2 instead of U+03C3) is not modelled: the model maps
  every U+03A3 to U+03C3.
\<close>

definition js_truthy_str :: "ustr \<Rightarrow> bool" where
  "js_truthy_str s \<longleftrightarrow> s \<noteq> []"

text \<open>
  The simple lower-case mappings of UnicodeData as a table of rows \<open>(lo, hi, step, delta)\<close>:
  every code point \<open>c\<close> with \<open>lo \<le> c \<le> hi\<close> and \<open>c - lo\<close> a multiple of \<open>step\<close>
  lower-cases to \<open>c + delta\<close>. The rows do not overlap. U+0130, whose mapping is two code
  points (SpecialCasing), is handled before the table.
\<close>

definition lower_rows :: "(nat \<times> nat \<times> nat \<times> int) list" where
  "lower_rows =
     [(65, 90, 1, 32),        \<comment> \<open>U+0041..U+005A\<close>
      (192, 214, 1, 32),      \<comment> \<open>U+00C0..U+00D6\<close>
      (216, 222, 1, 32),      \<comment> \<open>U+00D8..U+00DE\<close>
      (256, 302, 2, 1),       \<comment> \<open>U+0100..U+012E\<close>
      (306, 310, 2, 1),       \<comment> \<open>U+0132..U+0136\<close>
      (313, 327, 2, 1),       \<comment> \<open>U+0139..U+0147\<close>
      (330, 374, 2, 1),       \<comment> \<open>U+014A..U+0176\<close>
      (376, 376, 1, -121),    \<comment> \<open>U+0178\<close>
      (377, 381, 2, 1),       \<comment> \<open>U+0179..U+017D\<close>
      (385, 385, 1, 210),     \<comment> \<open>U+0181\<close>
      (386, 388, 2, 1),       \<comment> \<open>U+0182..U+0184\<close>
      (390, 390, 1, 206),     \<comment> \<open>U+0186\<close>
      (391, 391, 1, 1),       \<comment> \<open>U+0187\<close>
      (393, 394, 1, 205),     \<comment> \<open>U+0189..U+018A\<close>
      (395, 395, 1, 1),       \<comment> \<open>U+018B\<close>
      (398, 398, 1, 79),      \<comment> \<open>U+018E\<close>
      (399, 399, 1, 202),     \<comment> \<open>U+018F\<close>
      (400, 400, 1, 203),     \<comment> \<open>U+0190\<close>
      (401, 401, 1, 1),       \<comment> \<open>U+0191\<close>
      (403, 403, 1, 205),     \<comment> \<open>U+0193\<close>
      (404, 404, 1, 207),     \<comment> \<open>U+0194\<close>
      (406, 406, 1, 211),     \<comment> \<open>U+0196\<close>
      (407, 407, 1, 209),     \<comment> \<open>U+0197\<close>
      (408, 408, 1, 1),       \<comment> \<open>U+0198\<close>
      (412, 412, 1, 211),     \<comment> \<open>U+019C\<close>
      (413, 413, 1, 213),     \<comment> \<open>U+019D\<close>
      (415, 415, 1, 214),     \<comment> \<open>U+019F\<close>
      (416, 420, 2, 1),       \<comment> \<open>U+01A0..U+01A4\<close>
      (422, 422, 1, 218),     \<comment> \<open>U+01A6\<close>
      (423, 423, 1, 1),       \<comment> \<open>U+01A7\<close>
      (425, 425, 1, 218),     \<comment> \<open>U+01A9\<close>
      (428, 428, 1, 1),       \<comment> \<open>U+01AC\<close>
      (430, 430, 1, 218),     \<comment> \<open>U+01AE\<close>
      (431, 431, 1, 1),       \<comment> \<open>U+01AF\<close>
      (433, 434, 1, 217),     \<comment> \<open>U+01B1..U+01B2\<close>
      (435, 437, 2, 1),       \<comment> \<open>U+01B3..U+01B5\<close>
      (439, 439, 1, 219),     \<comment> \<open>U+01B7\<close>
      (440, 440, 1, 1),       \<comment> \<open>U+01B8\<close>
      (444, 444, 1, 1),       \<comment> \<open>U+01BC\<close>
      (452, 452, 1, 2),       \<comment> \<open>U+01C4\<close>
      (453, 453, 1, 1),       \<comment> \<open>U+01C5\<close>
      (455, 455, 1, 2),       \<comment> \<open>U+01C7\<close>
      (456, 456, 1, 1),       \<comment> \<open>U+01C8\<close>
      (458, 458, 1, 2),       \<comment> \<open>U+01CA\<close>
      (459, 459, 1, 1),       \<comment> \<open>U+01CB\<close>
      (461, 475, 2, 1),       \<comment> \<open>U+01CD..U+01DB\<close>
      (478, 494, 2, 1),       \<comment> \<open>U+01DE..U+01EE\<close>
      (497, 497, 1, 2),       \<comment> \<open>U+01F1\<close>
      (498, 498, 1, 1),       \<comment> \<open>U+01F2\<close>
      (500, 500, 1, 1),       \<comment> \<open>U+01F4\<close>
      (502, 502, 1, -97),     \<comment> \<open>U+01F6\<close>
      (503, 503, 1, -56),     \<comment> \<open>U+01F7\<close>
      (504, 542, 2, 1),       \<comment> \<open>U+01F8..U+021E\<close>
      (544, 544, 1, -130),    \<comment> \<open>U+0220\<close>
      (546, 562, 2, 1),       \<comment> \<open>U+0222..U+0232\<close>
      (570, 570, 1, 10795),   \<comment> \<open>U+023A\<close>
      (571, 571, 1, 1),       \<comment> \<open>U+023B\<close>
      (573, 573, 1, -163),    \<comment> \<open>U+023D\<close>
      (574, 574, 1, 10792),   \<comment> \<open>U+023E\<close>
      (577, 577, 1, 1),       \<comment> \<open>U+0241\<close>
      (579, 579, 1, -195),    \<comment> \<open>U+0243\<close>
      (580, 580, 1, 69),      \<comment> \<open>U+0244\<close>
      (581, 581, 1, 71),      \<comment> \<open>U+0245\<close>
      (582, 590, 2, 1),       \<comment> \<open>U+0246..U+024E\<close>
      (880, 882, 2, 1),       \<comment> \<open>U+0370..U+0372\<close>
      (886, 886, 1, 1),       \<comment> \<open>U+0376\<close>
      (895, 895, 1, 116),     \<comment> \<open>U+037F\<close>
      (902, 902, 1, 38),      \<comment> \<open>U+0386\<close>
      (904, 906, 1, 37),      \<comment> \<open>U+0388..U+038A\<close>
      (908, 908, 1, 64),      \<comment> \<open>U+038C\<close>
      (910, 911, 1, 63),      \<comment> \<open>U+038E..U+038F\<close>
      (913, 929, 1, 32),      \<comment> \<open>U+0391..U+03A1\<close>
      (931, 939, 1, 32),      \<comment> \<open>U+03A3..U+03AB\<close>
      (975, 975, 1, 8),       \<comment> \<open>U+03CF\<close>
      (984, 1006, 2, 1),      \<comment> \<open>U+03D8..U+03EE\<close>
      (1012, 1012, 1, -60),   \<comment> \<open>U+03F4\<close>
      (1015, 1015, 1, 1),     \<comment> \<open>U+03F7\<close>
      (1017, 1017, 1, -7),    \<comment> \<open>U+03F9\<close>
      (1018, 1018, 1, 1),     \<comment> \<open>U+03FA\<close>
      (1021, 1023, 1, -130),  \<comment> \<open>U+03FD..U+03FF\<close>
      (1024, 1039, 1, 80),    \<comment> \<open>U+0400..U+040F\<close>
      (1040, 1071, 1, 32),    \<comment> \<open>U+0410..U+042F\<close>
      (1120, 1152, 2, 1),     \<comment> \<open>U+0460..U+0480\<close>
      (1162, 1214, 2, 1),     \<comment> \<open>U+048A..U+04BE\<close>
      (1216, 1216, 1, 15),    \<comment> \<open>U+04C0\<close>
      (1217, 1229, 2, 1),     \<comment> \<open>U+04C1..U+04CD\<close>
      (1232, 1326, 2, 1),     \<comment> \<open>U+04D0..U+052E\<close>
      (1329, 1366, 1, 48),    \<comment> \<open>U+0531..U+0556\<close>
      (4256, 4293, 1, 7264),  \<comment> \<open>U+10A0..U+10C5\<close>
      (4295, 4295, 1, 7264),  \<comment> \<open>U+10C7\<close>
      (4301, 4301, 1, 7264),  \<comment> \<open>U+10CD\<close>
      (5024, 5103, 1, 38864), \<comment> \<open>U+13A0..U+13EF\<close>
      (5104, 5109, 1, 8),     \<comment> \<open>U+13F0..U+13F5\<close>
      (7312, 7354, 1, -3008), \<comment> \<open>U+1C90..U+1CBA\<close>
      (7357, 7359, 1, -3008), \<comment> \<open>U+1CBD..U+1CBF\<close>
      (7680, 7828, 2, 1),     \<comment> \<open>U+1E00..U+1E94\<close>
      (7838, 7838, 1, -7615), \<comment> \<open>U+1E9E\<close>
      (7840, 7934, 2, 1),     \<comment> \<open>U+1EA0..U+1EFE\<close>
      (7944, 7951, 1, -8),    \<comment> \<open>U+1F08..U+1F0F\<close>
      (7960, 7965, 1, -8),    \<comment> \<open>U+1F18..U+1F1D\<close>
      (7976, 7983, 1, -8),    \<comment> \<open>U+1F28..U+1F2F\<close>
      (7992, 7999, 1, -8),    \<comment> \<open>U+1F38..U+1F3F\<close>
      (8008, 8013, 1, -8),    \<comment> \<open>U+1F48..U+1F4D\<close>
      (8025, 8031, 2, -8),    \<comment> \<open>U+1F59..U+1F5F\<close>
      (8040, 8047, 1, -8),    \<comment> \<open>U+1F68..U+1F6F\<close>
      (8072, 8079, 1, -8),    \<comment> \<open>U+1F88..U+1F8F\<close>
      (8088, 8095, 1, -8),    \<comment> \<open>U+1F98..U+1F9F\<close>
      (8104, 8111, 1, -8),    \<comment> \<open>U+1FA8..U+1FAF\<close>
      (8120, 8121, 1, -8),    \<comment> \<open>U+1FB8..U+1FB9\<close>
      (8122, 8123, 1, -74),   \<comment> \<open>U+1FBA..U+1FBB\<close>
      (8124, 8124, 1, -9),    \<comment> \<open>U+1FBC\<close>
      (8136, 8139, 1, -86),   \<comment> \<open>U+1FC8..U+1FCB\<close>
      (8140, 8140, 1, -9),    \<comment> \<open>U+1FCC\<close>
      (8152, 8153, 1, -8),    \<comment> \<open>U+1FD8..U+1FD9\<close>
      (8154, 8155, 1, -100),  \<comment> \<open>U+1FDA..U+1FDB\<close>
      (8168, 8169, 1, -8),    \<comment> \<open>U+1FE8..U+1FE9\<close>
      (8170, 8171, 1, -112),  \<comment> \<open>U+1FEA..U+1FEB\<close>
      (8172, 8172, 1, -7),    \<comment> \<open>U+1FEC\<close>
      (8184, 8185, 1, -128),  \<comment> \<open>U+1FF8..U+1FF9\<close>
      (8186, 8187, 1, -126),  \<comment> \<open>U+1FFA..U+1FFB\<close>
      (8188, 8188, 1, -9),    \<comment> \<open>U+1FFC\<close>
      (8486, 8486, 1, -7517), \<comment> \<open>U+2126\<close>
      (8490, 8490, 1, -8383), \<comment> \<open>U+212A\<close>
      (8491, 8491, 1, -8262), \<comment> \<open>U+212B\<close>
      (8498, 8498, 1, 28),    \<comment> \<open>U+2132\<close>
      (8544, 8559, 1, 16),    \<comment> \<open>U+2160..U+216F\<close>
      (8579, 8579, 1, 1),     \<comment> \<open>U+2183\<close>
      (9398, 9423, 1, 26),    \<comment> \<open>U+24B6..U+24CF\<close>
      (11264, 11311, 1, 48),  \<comment> \<open>U+2C00..U+2C2F\<close>
      (11360, 11360, 1, 1),   \<comment> \<open>U+2C60\<close>
      (11362, 11362, 1, -10743),\<comment> \<open>U+2C62\<close>
      (11363, 11363, 1, -3814),\<comment> \<open>U+2C63\<close>
      (11364, 11364, 1, -10727),\<comment> \<open>U+2C64\<close>
      (11367, 11371, 2, 1),   \<comment> \<open>U+2C67..U+2C6B\<close>
      (11373, 11373, 1, -10780),\<comment> \<open>U+2C6D\<close>
      (11374, 11374, 1, -10749),\<comment> \<open>U+2C6E\<close>
      (11375, 11375, 1, -10783),\<comment> \<open>U+2C6F\<close>
      (11376, 11376, 1, -10782),\<comment> \<open>U+2C70\<close>
      (11378, 11378, 1, 1),   \<comment> \<open>U+2C72\<close>
      (11381, 11381, 1, 1),   \<comment> \<open>U+2C75\<close>
      (11390, 11391, 1, -10815),\<comment> \<open>U+2C7E..U+2C7F\<close>
      (11392, 11490, 2, 1),   \<comment> \<open>U+2C80..U+2CE2\<close>
      (11499, 11501, 2, 1),   \<comment> \<open>U+2CEB..U+2CED\<close>
      (11506, 11506, 1, 1),   \<comment> \<open>U+2CF2\<close>
      (42560, 42604, 2, 1),   \<comment> \<open>U+A640..U+A66C\<close>
      (42624, 42650, 2, 1),   \<comment> \<open>U+A680..U+A69A\<close>
      (65313, 65338, 1, 32)]  \<comment> \<open>U+FF21..U+FF3A\<close>"

definition row_match :: "code_unit \<Rightarrow> nat \<times> nat \<times> nat \<times> int \<Rightarrow> bool" where
  "row_match c r = (case r of (lo, hi, step, delta) \<Rightarrow> lo \<le> c \<and> c \<le> hi \<and> (c - lo) mod step = 0)"

definition lower_units :: "code_unit \<Rightarrow> ustr" where
  "lower_units c =
     (if c = 304 then [105, 775]                               \<comment> \<open>U+0130\<close>
      else case find (row_match c) lower_rows of
             None \<Rightarrow> [c]
           | Some (lo, hi, step, delta) \<Rightarrow> [nat (int c + delta)])"

definition to_lower :: "ustr \<Rightarrow> ustr" where
  "to_lower s = concat (map lower_units s)"

text \<open>The ASCII-only case folding a simpler implementation might use instead.\<close>

definition ascii_fold :: "code_unit \<Rightarrow> code_unit" where
  "ascii_fold c = (if 65 \<le> c \<and> c \<le> 90 then c + 32 else c)"

lemma to_lower_simps [simp]:
  "to_lower [] = []"
  "to_lower (c # s) = lower_units c @ to_lower s"
  "to_lower (s @ t) = to_lower s @ to_lower t"
  by (simp_all add: to_lower_def)

lemma nat_int_add_numeral [simp]: "nat (int c + numeral k) = c + numeral k"
  by (simp add: nat_add_distrib)

lemma lower_units_below_192:
  "c < 192 \<Longrightarrow> lower_units c = (if 65 \<le> c \<and> c \<le> 90 then [c + 32] else [c])"
  by (simp add: lower_units_def lower_rows_def row_match_def)

lemma to_lower_below_192:
  assumes "\<forall>c\<in>set s. c < 192"
  shows "to_lower s = map ascii_fold s"
  using assms by (induction s) (simp_all add: lower_units_below_192 ascii_fold_def)

end
