(* ===== verification/Skills.thy ===== *)
theory Skills
  imports JS_String
begin

text \<open>
  The pure part of the component \<open>TruekaApp\<close> (src/src/App.jsx): the skill entry the
  form builds (line 13), the filtered view \<open>filteredSkills\<close> (lines 32 to 34) and the
  match computation \<open>getMatches\<close> (lines 36 to 49). A skill is the JavaScript object
  \<open>{name, user, type}\<close>, a record with the same three fields, each a string of code
  units; \<open>type\<close> is kept as the string the code compares (\<open>'ofrece'\<close> or
  \<open>'busca'\<close>, and \<open>'todos'\<close> for the filter), not as an enumeration, because the code
  compares strings and a loaded snapshot may hold any string there. \<open>flatMap\<close> is
  \<open>concat \<circ> map\<close>, \<open>Array.prototype.filter\<close> is \<open>filter\<close> (both keep order).

  \<open>match_pairs\<close> is the abstract specification of matching: the set of index pairs
  (seek, offer) whose names agree after lower-casing. The refinement theorem states that
  \<open>get_matches\<close> lists exactly these pairs, once each, in lexicographic order of
  (seek index, offer index); soundness, completeness, the order of the output and the
  count formula of the specification are its consequences.
\<close>

record skill =
  name :: ustr
  user :: ustr
  type :: ustr

definition kind_ofrece :: ustr where
  "kind_ofrece = ascii ''ofrece''"

definition kind_busca :: ustr where
  "kind_busca = ascii ''busca''"

definition filter_todos :: ustr where
  "filter_todos = ascii ''todos''"

definition empty_skill :: skill where
  "empty_skill = \<lparr>name = [], user = [], type = kind_ofrece\<rparr>"

definition filtered_skills :: "ustr \<Rightarrow> skill list \<Rightarrow> skill list" where
  "filtered_skills filterType skills =
     filter (\<lambda>skill. if filterType = filter_todos then True else type skill = filterType) skills"

definition offers_of :: "skill list \<Rightarrow> skill list" where
  "offers_of skills = filter (\<lambda>s. type s = kind_ofrece) skills"

definition requests_of :: "skill list \<Rightarrow> skill list" where
  "requests_of skills = filter (\<lambda>s. type s = kind_busca) skills"

record match =
  habilidad :: ustr
  busca :: ustr
  ofrece :: ustr

definition match_of :: "skill \<Rightarrow> skill \<Rightarrow> match" where
  "match_of req off = \<lparr>habilidad = name req, busca = user req, ofrece = user off\<rparr>"

definition same_skill_name :: "skill \<Rightarrow> skill \<Rightarrow> bool" where
  "same_skill_name off req \<longleftrightarrow> to_lower (name off) = to_lower (name req)"

definition get_matches :: "skill list \<Rightarrow> match list" where
  "get_matches skills =
     (let offers = offers_of skills;
          requests = requests_of skills
      in concat (map (\<lambda>req. map (\<lambda>off. match_of req off)
                                  (filter (\<lambda>off. same_skill_name off req) offers))
                     requests))"

definition match_pairs :: "skill list \<Rightarrow> (nat \<times> nat) set" where
  "match_pairs S =
     {(i, j). i < length S \<and> j < length S \<and> type (S ! i) = kind_busca \<and>
              type (S ! j) = kind_ofrece \<and> same_skill_name (S ! j) (S ! i)}"

definition skill_key :: "skill \<Rightarrow> ustr" where
  "skill_key s = to_lower (name s)"

declare filtered_skills_def [model_defs] offers_of_def [model_defs] requests_of_def [model_defs]
  get_matches_def [model_defs] match_of_def [model_defs]

lemma kind_strings_distinct [simp]:
  "kind_ofrece \<noteq> kind_busca" "kind_busca \<noteq> kind_ofrece"
  "filter_todos \<noteq> kind_ofrece" "filter_todos \<noteq> kind_busca"
  "kind_ofrece \<noteq> filter_todos" "kind_busca \<noteq> filter_todos"
  by (simp_all add: kind_ofrece_def kind_busca_def filter_todos_def)

subsection \<open>The index-pair form of \<open>getMatches\<close>\<close>

text \<open>
  \<open>seek_idx\<close> and \<open>offer_idx\<close> are the positions the two \<open>filter\<close> calls keep;
  \<open>pair_list\<close> is the list of index pairs the \<open>flatMap\<close> visits, in its order.
\<close>

lemma get_matches_pair_list:
  fixes S :: "skill list"
  defines "R \<equiv> filter (\<lambda>i. type (S ! i) = kind_busca) [0..<length S]"
    and "Off \<equiv> filter (\<lambda>j. type (S ! j) = kind_ofrece) [0..<length S]"
  defines "P \<equiv> concat (map (\<lambda>i. map (Pair i) (filter (\<lambda>j. same_skill_name (S ! j) (S ! i)) Off)) R)"
  shows "get_matches S = map (\<lambda>(i, j). match_of (S ! i) (S ! j)) P"
    and "sorted_wrt (<) P"
    and "set P = match_pairs S"
proof -
  have req: "requests_of S = map (nth S) R"
    unfolding requests_of_def R_def by (rule filter_upt_nth)
  have off: "offers_of S = map (nth S) Off"
    unfolding offers_of_def Off_def by (rule filter_upt_nth)
  show "get_matches S = map (\<lambda>(i, j). match_of (S ! i) (S ! j)) P"
    by (simp add: get_matches_def req off P_def map_concat filter_map comp_def)
  have "sorted_wrt (<) R" "sorted_wrt (<) Off"
    by (simp_all add: R_def Off_def sorted_wrt_filter)
  then show "sorted_wrt (<) P"
    unfolding P_def by (intro sorted_wrt_concat_pairs) (simp_all add: sorted_wrt_filter)
  show "set P = match_pairs S"
    by (auto simp: P_def R_def Off_def match_pairs_def)
qed

lemma finite_match_pairs: "finite (match_pairs S)"
proof -
  have "match_pairs S \<subseteq> {0..<length S} \<times> {0..<length S}"
    by (auto simp: match_pairs_def)
  then show ?thesis by (rule finite_subset) simp
qed

subsection \<open>Properties of \<open>getMatches\<close> and \<open>filteredSkills\<close>\<close>

text \<open>C3. Refinement: \<open>getMatches\<close> returns one match for each (seek, offer) index pair of
  the abstract specification \<open>match_pairs\<close>, and lists them in increasing lexicographic
  order of (seek position, offer position), with no pair missing or repeated.\<close>

theorem get_matches_sorted_pairs:
  "get_matches S = map (\<lambda>(i, j). match_of (S ! i) (S ! j)) (sorted_list_of_set (match_pairs S))"
proof -
  obtain P where eq: "get_matches S = map (\<lambda>(i, j). match_of (S ! i) (S ! j)) P"
    and sorted: "sorted_wrt (<) P" and set: "set P = match_pairs S"
    using get_matches_pair_list by blast
  from sorted have "sorted_list_of_set (set P) = P"
    by (simp add: strict_sorted_iff sorted_list_of_set.idem_if_sorted_distinct)
  with eq set show ?thesis by simp
qed

lemma length_get_matches_sum:
  "length (get_matches S) =
     sum_list (map (\<lambda>r. length (filter (\<lambda>x. skill_key x = skill_key r) (offers_of S))) (requests_of S))"
  by (simp add: get_matches_def length_concat comp_def same_skill_name_def skill_key_def)

text \<open>C21. A match is in the output exactly when some seek entry and some offer entry of the
  list have equal names after lower-casing, and the match carries the seek's name, the
  seeker and the offerer.\<close>

theorem get_matches_member:
  "m \<in> set (get_matches S) \<longleftrightarrow>
     (\<exists>r\<in>set S. \<exists>off\<in>set S. type r = kind_busca \<and> type off = kind_ofrece \<and>
        to_lower (name off) = to_lower (name r) \<and> m = match_of r off)"
  by (auto simp: get_matches_def offers_of_def requests_of_def same_skill_name_def)

text \<open>C22. The number of matches is the sum, over the distinct lower-cased names, of the
  number of seeks with that name times the number of offers with that name (the
  Cartesian join of the specification, with no deduplication).\<close>

theorem length_get_matches:
  "length (get_matches S) =
     (\<Sum>k\<in>set (map skill_key S).
        length (filter (\<lambda>s. type s = kind_busca \<and> skill_key s = k) S) *
        length (filter (\<lambda>s. type s = kind_ofrece \<and> skill_key s = k) S))"
proof -
  let ?g = "\<lambda>k. length (filter (\<lambda>x. skill_key x = k) (offers_of S))"
  let ?R = "requests_of S"
  let ?t = "\<lambda>k. length (filter (\<lambda>s. type s = kind_busca \<and> skill_key s = k) S) *
               length (filter (\<lambda>s. type s = kind_ofrece \<and> skill_key s = k) S)"
  have "length (get_matches S) = sum_list (map (\<lambda>r. ?g (skill_key r)) ?R)"
    by (rule length_get_matches_sum)
  also have "\<dots> = (\<Sum>k\<in>set (map skill_key ?R). length (filter (\<lambda>x. skill_key x = k) ?R) * ?g k)"
    by (rule sum_list_map_group)
  also have "\<dots> = (\<Sum>k\<in>set (map skill_key ?R). ?t k)"
    by (simp add: requests_of_def offers_of_def conj_commute)
  also have "\<dots> = (\<Sum>k\<in>set (map skill_key S). ?t k)"
  proof (rule sum.mono_neutral_left)
    show "set (map skill_key ?R) \<subseteq> set (map skill_key S)"
      by (auto simp: requests_of_def)
    show "\<forall>k\<in>set (map skill_key S) - set (map skill_key ?R). ?t k = 0"
    proof
      fix k
      assume "k \<in> set (map skill_key S) - set (map skill_key ?R)"
      then have "\<forall>s\<in>set S. type s = kind_busca \<longrightarrow> skill_key s \<noteq> k"
        by (auto simp: requests_of_def image_iff)
      then show "?t k = 0" by (simp add: filter_empty_conv)
    qed
  qed simp
  finally show ?thesis .
qed

text \<open>C23. Appending an entry changes the matches as follows: a seek adds its matches
  against all current offers at the end; an offer adds itself at the end of the group of
  every seek with the same lower-cased name; any other type leaves the matches unchanged.\<close>

theorem get_matches_snoc:
  "get_matches (S @ [x]) =
     (if type x = kind_busca
      then get_matches S @ map (match_of x) (filter (\<lambda>off. same_skill_name off x) (offers_of S))
      else if type x = kind_ofrece
      then concat (map (\<lambda>req. map (match_of req) (filter (\<lambda>off. same_skill_name off req) (offers_of S))
                              @ (if same_skill_name x req then [match_of req x] else []))
                       (requests_of S))
      else get_matches S)"
  unfolding get_matches_def offers_of_def requests_of_def
  by (auto intro!: arg_cong [where f = concat] map_cong)

text \<open>C27. The filter value \<open>'todos'\<close> shows every entry, in order.\<close>

theorem filtered_skills_todos: "filtered_skills filter_todos S = S"
  by (simp add: filtered_skills_def)

text \<open>C28. Any other filter value keeps the subsequence of entries whose type is that
  value: order is preserved, only entries of that type are kept, and each is kept with
  its multiplicity.\<close>

theorem filtered_skills_kind:
  assumes "k \<noteq> filter_todos"
  shows "subseq (filtered_skills k S) S \<and> (\<forall>s\<in>set (filtered_skills k S). type s = k) \<and>
         mset (filtered_skills k S) = filter_mset (\<lambda>s. type s = k) (mset S)"
  using assms by (simp add: filtered_skills_def)

theorem filtered_skills_kind_witness:
  "kind_busca \<noteq> filter_todos \<and>
   (let S = [\<lparr>name = ascii ''Yoga'', user = ascii ''Ana'', type = kind_ofrece\<rparr>,
             \<lparr>name = ascii ''Yoga'', user = ascii ''Carla'', type = kind_busca\<rparr>]
    in subseq (filtered_skills kind_busca S) S \<and>
       (\<forall>s\<in>set (filtered_skills kind_busca S). type s = kind_busca) \<and>
       mset (filtered_skills kind_busca S) = filter_mset (\<lambda>s. type s = kind_busca) (mset S))"
  using filtered_skills_kind [of kind_busca
      "[\<lparr>name = ascii ''Yoga'', user = ascii ''Ana'', type = kind_ofrece\<rparr>,
        \<lparr>name = ascii ''Yoga'', user = ascii ''Carla'', type = kind_busca\<rparr>]"]
  by (simp add: Let_def)

subsection \<open>The comparison key\<close>

text \<open>C29. Equivalence with ASCII case folding: for names whose code units all lie below
  U+00C0 (ASCII and the Latin-1 symbols), \<open>getMatches\<close>' comparison
  \<open>off.name.toLowerCase() === req.name.toLowerCase()\<close> is equality after folding A..Z
  to a..z; above that range the engine's table decides (accented and non-Latin letters).\<close>

theorem same_skill_name_ascii:
  assumes "list_all (\<lambda>c. c < 192) (name off)" and "list_all (\<lambda>c. c < 192) (name req)"
  shows "same_skill_name off req \<longleftrightarrow> map ascii_fold (name off) = map ascii_fold (name req)"
  using assms by (simp add: same_skill_name_def to_lower_below_192 list_all_iff)

theorem same_skill_name_ascii_witness:
  "list_all (\<lambda>c. c < 192) (name \<lparr>name = ascii ''YOGA'', user = ascii ''Ana'', type = kind_ofrece\<rparr>) \<and>
   list_all (\<lambda>c. c < 192) (name \<lparr>name = ascii ''yoga'', user = ascii ''Luis'', type = kind_busca\<rparr>) \<and>
   same_skill_name \<lparr>name = ascii ''YOGA'', user = ascii ''Ana'', type = kind_ofrece\<rparr>
                   \<lparr>name = ascii ''yoga'', user = ascii ''Luis'', type = kind_busca\<rparr>"
  using same_skill_name_ascii [of "\<lparr>name = ascii ''YOGA'', user = ascii ''Ana'', type = kind_ofrece\<rparr>"
                                  "\<lparr>name = ascii ''yoga'', user = ascii ''Luis'', type = kind_busca\<rparr>"]
  by (simp add: ascii_fold_def)

end
