(* ===== verification/Json.thy ===== *)
theory Json
  imports Prelude
begin

text \<open>
  JSON values and \<open>JSON.stringify\<close>, the serialisation the component applies to its
  list before writing it to \<open>localStorage\<close> (src/src/App.jsx line 22). Both are
  ECMAScript built-ins and are modelled from the language specification
  (SerializeJSONProperty, QuoteJSONString, UnicodeEscape, with no indentation argument).

  A value is a \<open>json\<close>: \<open>null\<close>, a boolean, a number, a string of code units, an
  array or an object. An object is the list of its own properties in the order
  \<open>OrdinaryOwnPropertyKeys\<close> enumerates them: the array-index keys (canonical decimal
  strings of integers below 2^32 - 1) in ascending numeric order, then the other keys in
  creation order. \<open>obj_put\<close> is \<open>CreateDataProperty\<close> on such a list, which is how
  \<open>JSON.parse\<close> builds objects: an existing key keeps its place and takes the new
  value, a new index key goes to its numeric place, any other new key goes last. A number
  is kept as the text of its literal; \<open>JSON.stringify\<close> of a number prints the
  engine's shortest decimal form of the double, which the model approximates by the
  literal itself (the component never writes numbers).
\<close>

datatype json =
    JNull
  | JBool bool
  | JNum ustr
  | JStr ustr
  | JArr "json list"
  | JObj "(ustr \<times> json) list"

subsection \<open>Object keys\<close>

definition is_digit :: "code_unit \<Rightarrow> bool" where
  "is_digit c \<longleftrightarrow> 48 \<le> c \<and> c \<le> 57"

definition digits_value :: "ustr \<Rightarrow> nat" where
  "digits_value ds = foldl (\<lambda>a d. 10 * a + (d - 48)) 0 ds"

definition is_array_index :: "ustr \<Rightarrow> bool" where
  "is_array_index k \<longleftrightarrow>
     k \<noteq> [] \<and> (\<forall>d\<in>set k. is_digit d) \<and> (hd k = 48 \<longrightarrow> k = [48]) \<and>
     digits_value k < 4294967295"

fun insert_index :: "ustr \<Rightarrow> json \<Rightarrow> (ustr \<times> json) list \<Rightarrow> (ustr \<times> json) list" where
  "insert_index k v [] = [(k, v)]"
| "insert_index k v ((k', v') # kvs) =
     (if is_array_index k' \<and> digits_value k' < digits_value k
      then (k', v') # insert_index k v kvs
      else (k, v) # (k', v') # kvs)"

definition obj_put :: "ustr \<Rightarrow> json \<Rightarrow> (ustr \<times> json) list \<Rightarrow> (ustr \<times> json) list" where
  "obj_put k v kvs =
     (if k \<in> set (map fst kvs) then map (\<lambda>(k', v'). if k' = k then (k', v) else (k', v')) kvs
      else if is_array_index k then insert_index k v kvs
      else kvs @ [(k, v)])"

subsection \<open>QuoteJSONString\<close>

definition is_high_surrogate :: "code_unit \<Rightarrow> bool" where
  "is_high_surrogate c \<longleftrightarrow> 55296 \<le> c \<and> c \<le> 56319"

definition is_low_surrogate :: "code_unit \<Rightarrow> bool" where
  "is_low_surrogate c \<longleftrightarrow> 56320 \<le> c \<and> c \<le> 57343"

definition hex_digit :: "nat \<Rightarrow> code_unit" where
  "hex_digit d = (if d < 10 then 48 + d else 87 + d)"

definition unicode_escape :: "code_unit \<Rightarrow> ustr" where
  "unicode_escape c =
     [92, 117, hex_digit (c div 4096 mod 16), hex_digit (c div 256 mod 16),
      hex_digit (c div 16 mod 16), hex_digit (c mod 16)]"

text \<open>The escape of one code point that is not half of a surrogate pair.\<close>

definition escape_unit :: "code_unit \<Rightarrow> ustr" where
  "escape_unit c =
     (if c = 8 then [92, 98]
      else if c = 9 then [92, 116]
      else if c = 10 then [92, 110]
      else if c = 12 then [92, 102]
      else if c = 13 then [92, 114]
      else if c = 34 then [92, 34]
      else if c = 92 then [92, 92]
      else if c < 32 \<or> is_high_surrogate c \<or> is_low_surrogate c then unicode_escape c
      else [c])"

fun quote_units :: "ustr \<Rightarrow> ustr" where
  "quote_units [] = []"
| "quote_units [c] = escape_unit c"
| "quote_units (c # d # cs) =
     (if is_high_surrogate c \<and> is_low_surrogate d then c # d # quote_units cs
      else escape_unit c @ quote_units (d # cs))"

definition quote_json :: "ustr \<Rightarrow> ustr" where
  "quote_json s = [34] @ quote_units s @ [34]"

subsection \<open>SerializeJSONProperty\<close>

fun join_commas :: "ustr list \<Rightarrow> ustr" where
  "join_commas [] = []"
| "join_commas [x] = x"
| "join_commas (x # y # ys) = x @ [44] @ join_commas (y # ys)"

fun stringify :: "json \<Rightarrow> ustr" where
  "stringify JNull = ascii ''null''"
| "stringify (JBool b) = (if b then ascii ''true'' else ascii ''false'')"
| "stringify (JNum lit) = lit"
| "stringify (JStr s) = quote_json s"
| "stringify (JArr vs) = [91] @ join_commas (map stringify vs) @ [93]"
| "stringify (JObj kvs) = [123] @ join_commas (map (\<lambda>(k, v). quote_json k @ [58] @ stringify v) kvs) @ [125]"


end
