(* ===== verification/Json_Parse.thy ===== *)
theory Json_Parse
  imports Json
begin

text \<open>
  \<open>JSON.parse\<close> without a reviver, the deserialisation the component applies to the
  stored text on mount (src/src/App.jsx line 18), modelled from ECMA-404 and ECMAScript's
  \<open>JSON.parse\<close>: the whole text must be one JSON value between optional white space
  (space, tab, line feed, carriage return); anything else throws a \<open>SyntaxError\<close>,
  which is the value \<open>Inl SyntaxError\<close> here.

  The parser is a recursive descent over the code units, one function per nonterminal
  (\<open>parse_value\<close>, and for the inside of arrays and objects \<open>parse_elems\<close>,
  \<open>parse_member\<close>, \<open>parse_members\<close>). Each returns the value read and the rest of
  the input. Their recursion is not structural on the input, so they take a fuel argument
  that each call spends; running out is \<open>Inl OutOfFuel\<close>, which is not an outcome of
  the engine. \<open>json_parse\<close> starts with the length of the text plus one, and the
  lemmas below show that this is always enough: \<open>json_parse\<close> is total and its only
  error is \<open>SyntaxError\<close> (\<open>parse_good\<close>, \<open>json_parse_fuel\<close>). The round-trip
  lemmas show that parsing the text \<open>stringify\<close> prints gives the value back for every
  canonical value (\<open>parse_stringify\<close>), through the escapes of strings
  (\<open>parse_quote_units\<close>), the elements of arrays and the members of objects.
\<close>

datatype json_error = SyntaxError | OutOfFuel

fun skip_ws :: "ustr \<Rightarrow> ustr" where
  "skip_ws [] = []"
| "skip_ws (c # cs) = (if c = 32 \<or> c = 9 \<or> c = 10 \<or> c = 13 then skip_ws cs else c # cs)"

definition is_hex :: "code_unit \<Rightarrow> bool" where
  "is_hex c \<longleftrightarrow> is_digit c \<or> (65 \<le> c \<and> c \<le> 70) \<or> (97 \<le> c \<and> c \<le> 102)"

definition hex_val :: "code_unit \<Rightarrow> nat" where
  "hex_val c = (if c \<le> 57 then c - 48 else if c \<le> 70 then c - 55 else c - 87)"

definition simple_escape :: "code_unit \<Rightarrow> code_unit option" where
  "simple_escape e =
     (if e = 34 then Some 34 else if e = 92 then Some 92 else if e = 47 then Some 47
      else if e = 98 then Some 8 else if e = 102 then Some 12 else if e = 110 then Some 10
      else if e = 114 then Some 13 else if e = 116 then Some 9 else None)"

text \<open>
  The escape sequence after a backslash: the code unit it stands for and the number of
  code units it occupies after the backslash (\<open>\\uXXXX\<close> with four hexadecimal
  digits of either case, or one of \<open>\<quote> \\ / b f n r t\<close>).
\<close>

definition escape_value :: "ustr \<Rightarrow> (code_unit \<times> nat) option" where
  "escape_value r =
     (case r of
        [] \<Rightarrow> None
      | e # t \<Rightarrow>
          if e = 117 then
            (if 4 \<le> length t \<and> (\<forall>d\<in>set (take 4 t). is_hex d)
             then Some (foldl (\<lambda>a d. 16 * a + hex_val d) 0 (take 4 t), 5)
             else None)
          else map_option (\<lambda>u. (u, 1)) (simple_escape e))"

definition cons_unit :: "code_unit \<Rightarrow> json_error + (ustr \<times> ustr) \<Rightarrow> json_error + (ustr \<times> ustr)" where
  "cons_unit c r = (case r of Inl e \<Rightarrow> Inl e | Inr (s, rest) \<Rightarrow> Inr (c # s, rest))"

text \<open>The characters of a string literal after its opening quote, up to the closing one.\<close>

fun parse_chars :: "ustr \<Rightarrow> json_error + (ustr \<times> ustr)" where
  "parse_chars [] = Inl SyntaxError"
| "parse_chars (c # cs) =
     (if c = 34 then Inr ([], cs)
      else if c = 92 then
        (case escape_value cs of
           None \<Rightarrow> Inl SyntaxError
         | Some (u, k) \<Rightarrow> cons_unit u (parse_chars (drop k cs)))
      else if c < 32 then Inl SyntaxError
      else cons_unit c (parse_chars cs))"

definition digits_len :: "ustr \<Rightarrow> nat" where
  "digits_len s = length (takeWhile is_digit s)"

text \<open>
  The length of the longest prefix that is a JSON number
  \<open>-? (0 | [1-9][0-9]*) (. [0-9]+)? ([eE] [+-]? [0-9]+)?\<close>, if there is one: the
  lengths of the sign, of the integer part (0 when there is none, which is an error), of
  the fraction and of the exponent (\<open>None\<close> when the part is started but has no digit).
\<close>

definition sign_len :: "ustr \<Rightarrow> nat" where
  "sign_len s = (if s \<noteq> [] \<and> hd s = 45 then 1 else 0)"

definition int_len :: "ustr \<Rightarrow> nat" where
  "int_len s = (if s = [] then 0 else if hd s = 48 then 1 else digits_len s)"

definition frac_len :: "ustr \<Rightarrow> nat option" where
  "frac_len s =
     (if s \<noteq> [] \<and> hd s = 46
      then (if digits_len (tl s) = 0 then None else Some (Suc (digits_len (tl s))))
      else Some 0)"

definition exp_len :: "ustr \<Rightarrow> nat option" where
  "exp_len s =
     (if s \<noteq> [] \<and> (hd s = 101 \<or> hd s = 69)
      then (let sg = (if tl s \<noteq> [] \<and> (hd (tl s) = 43 \<or> hd (tl s) = 45) then 1 else 0);
                d = digits_len (drop sg (tl s))
            in if d = 0 then None else Some (Suc (sg + d)))
      else Some 0)"

definition number_prefix :: "ustr \<Rightarrow> nat option" where
  "number_prefix s =
     (let a = sign_len s;
          b = int_len (drop a s)
      in if b = 0 then None
         else case frac_len (drop (a + b) s) of
                None \<Rightarrow> None
              | Some c \<Rightarrow> map_option (\<lambda>e. a + b + c + e) (exp_len (drop (a + b + c) s)))"

fun parse_value :: "nat \<Rightarrow> ustr \<Rightarrow> json_error + (json \<times> ustr)"
and parse_elems :: "nat \<Rightarrow> json list \<Rightarrow> ustr \<Rightarrow> json_error + (json \<times> ustr)"
and parse_member :: "nat \<Rightarrow> (ustr \<times> json) list \<Rightarrow> ustr \<Rightarrow> json_error + (json \<times> ustr)"
and parse_members :: "nat \<Rightarrow> (ustr \<times> json) list \<Rightarrow> ustr \<Rightarrow> json_error + (json \<times> ustr)"
where
  "parse_value 0 s = Inl OutOfFuel"
| "parse_value (Suc n) s =
     (case skip_ws s of
        [] \<Rightarrow> Inl SyntaxError
      | c # cs \<Rightarrow>
          if c = 123 then
            (case skip_ws cs of
               [] \<Rightarrow> Inl SyntaxError
             | d # r \<Rightarrow> if d = 125 then Inr (JObj [], r) else parse_member n [] (d # r))
          else if c = 91 then
            (case skip_ws cs of
               [] \<Rightarrow> Inl SyntaxError
             | d # r \<Rightarrow>
                 if d = 93 then Inr (JArr [], r)
                 else (case parse_value n (d # r) of
                         Inl e \<Rightarrow> Inl e
                       | Inr (v, r') \<Rightarrow> parse_elems n [v] r'))
          else if c = 34 then
            (case parse_chars cs of
               Inl e \<Rightarrow> Inl e
             | Inr (str, r) \<Rightarrow> Inr (JStr str, r))
          else if c = 116 \<and> take 3 cs = ascii ''rue'' then Inr (JBool True, drop 3 cs)
          else if c = 102 \<and> take 4 cs = ascii ''alse'' then Inr (JBool False, drop 4 cs)
          else if c = 110 \<and> take 3 cs = ascii ''ull'' then Inr (JNull, drop 3 cs)
          else if c = 45 \<or> is_digit c then
            (case number_prefix (c # cs) of
               None \<Rightarrow> Inl SyntaxError
             | Some k \<Rightarrow> Inr (JNum (take k (c # cs)), drop k (c # cs)))
          else Inl SyntaxError)"
| "parse_elems 0 acc s = Inl OutOfFuel"
| "parse_elems (Suc n) acc s =
     (case skip_ws s of
        [] \<Rightarrow> Inl SyntaxError
      | c # r \<Rightarrow>
          if c = 44 then
            (case parse_value n r of
               Inl e \<Rightarrow> Inl e
             | Inr (v, r') \<Rightarrow> parse_elems n (acc @ [v]) r')
          else if c = 93 then Inr (JArr acc, r)
          else Inl SyntaxError)"
| "parse_member 0 obj s = Inl OutOfFuel"
| "parse_member (Suc n) obj s =
     (case skip_ws s of
        [] \<Rightarrow> Inl SyntaxError
      | c # r \<Rightarrow>
          if c = 34 then
            (case parse_chars r of
               Inl e \<Rightarrow> Inl e
             | Inr (k, r1) \<Rightarrow>
                 (case skip_ws r1 of
                    [] \<Rightarrow> Inl SyntaxError
                  | d # r2 \<Rightarrow>
                      if d = 58 then
                        (case parse_value n r2 of
                           Inl e \<Rightarrow> Inl e
                         | Inr (v, r3) \<Rightarrow> parse_members n (obj_put k v obj) r3)
                      else Inl SyntaxError))
          else Inl SyntaxError)"
| "parse_members 0 obj s = Inl OutOfFuel"
| "parse_members (Suc n) obj s =
     (case skip_ws s of
        [] \<Rightarrow> Inl SyntaxError
      | c # r \<Rightarrow>
          if c = 44 then parse_member n obj r
          else if c = 125 then Inr (JObj obj, r)
          else Inl SyntaxError)"

definition json_parse :: "ustr \<Rightarrow> json_error + json" where
  "json_parse s =
     (case parse_value (Suc (length s)) s of
        Inl e \<Rightarrow> Inl e
      | Inr (v, r) \<Rightarrow> if skip_ws r = [] then Inr v else Inl SyntaxError)"


subsection \<open>Values that survive a round trip\<close>

text \<open>
  \<open>json_canonical v\<close>: \<open>v\<close> contains no number and every object lists its keys
  without repetition and in the engine's enumeration order (\<open>keys_in_order\<close>: each
  key, taken in order, is one \<open>obj_put\<close> appends at the end). These are the values
  for which \<open>JSON.parse (JSON.stringify v)\<close> gives back \<open>v\<close> itself; every object
  the component writes is one of them.
\<close>

definition appends_last :: "ustr list \<Rightarrow> ustr \<Rightarrow> bool" where
  "appends_last ks k \<longleftrightarrow>
     k \<notin> set ks \<and>
     (is_array_index k \<longrightarrow> (\<forall>k'\<in>set ks. is_array_index k' \<and> digits_value k' < digits_value k))"

fun keys_in_order :: "ustr list \<Rightarrow> ustr list \<Rightarrow> bool" where
  "keys_in_order seen [] = True"
| "keys_in_order seen (k # ks) = (appends_last seen k \<and> keys_in_order (seen @ [k]) ks)"

fun json_canonical :: "json \<Rightarrow> bool" where
  "json_canonical JNull = True"
| "json_canonical (JBool b) = True"
| "json_canonical (JNum lit) = False"
| "json_canonical (JStr s) = True"
| "json_canonical (JArr vs) = (\<forall>v\<in>set vs. json_canonical v)"
| "json_canonical (JObj kvs) = (keys_in_order [] (map fst kvs) \<and> (\<forall>(k, v)\<in>set kvs. json_canonical v))"

abbreviation parses_back :: "json \<Rightarrow> bool" where
  "parses_back v \<equiv> \<forall>n rest. length (stringify v) < n \<longrightarrow> parse_value n (stringify v @ rest) = Inr (v, rest)"

subsection \<open>Totality: the fuel is always enough\<close>

text \<open>
  \<open>res_good n s res\<close>: a result read from input \<open>s\<close> with fuel \<open>n\<close> leaves a strictly
  shorter rest, and it runs out of fuel only if the fuel was at most the length of the
  input. Every parser has this property (\<open>parse_good\<close>, by induction on the fuel), so
  the fuel \<open>length s + 1\<close> of \<open>json_parse\<close> never runs out.
\<close>

definition res_good :: "nat \<Rightarrow> ustr \<Rightarrow> json_error + ('a \<times> ustr) \<Rightarrow> bool" where
  "res_good n s res \<longleftrightarrow>
     (\<forall>v r. res = Inr (v, r) \<longrightarrow> length r < length s) \<and> (res = Inl OutOfFuel \<longrightarrow> n \<le> length s)"

lemma skip_ws_length: "length (skip_ws s) \<le> length s"
  by (induction s) auto

lemma skip_ws_Cons_length: "skip_ws s = c # r \<Longrightarrow> length r < length s"
  using skip_ws_length [of s] by simp

lemma number_prefix_pos: "number_prefix s = Some k \<Longrightarrow> 0 < k"
  by (auto simp: number_prefix_def Let_def split: option.splits if_splits)

lemma cons_unit_Inl: "cons_unit u r = Inl e \<Longrightarrow> r = Inl e"
  by (auto simp: cons_unit_def split: sum.splits)

lemma parse_chars_rest: "parse_chars s = Inr (t, r) \<Longrightarrow> length r < length s"
proof (induction s arbitrary: t rule: parse_chars.induct)
  case 1
  then show ?case by simp
next
  case (2 c cs)
  then show ?case
    by (fastforce simp: cons_unit_def split: if_splits option.splits sum.splits)
qed

lemma parse_chars_error: "parse_chars s = Inl e \<Longrightarrow> e = SyntaxError"
proof (induction s rule: parse_chars.induct)
  case 1
  then show ?case by simp
next
  case (2 c cs)
  then show ?case
    by (auto split: if_splits option.splits dest!: cons_unit_Inl)
qed

lemma res_good_err [intro!]: "res_good n s (Inl SyntaxError)"
  by (simp add: res_good_def)

lemma res_good_Inr [intro]: "length r < length s \<Longrightarrow> res_good n s (Inr (v, r))"
  by (simp add: res_good_def)

lemma res_good_weaken:
  "res_good n t res \<Longrightarrow> length t < length s \<Longrightarrow> res_good (Suc n) s res"
  by (auto simp: res_good_def)

lemma res_good_bind:
  assumes "res_good n t res" and "length t < length s"
    and "\<And>v r. length r < length t \<Longrightarrow> res_good n r (k v r)"
  shows "res_good (Suc n) s (case res of Inl e \<Rightarrow> Inl e | Inr (v, r) \<Rightarrow> k v r)"
proof (cases res)
  case (Inl e)
  with assms(1,2) show ?thesis by (auto simp: res_good_def)
next
  case (Inr p)
  obtain v r where p: "p = (v, r)" by (cases p)
  with Inr assms(1) have "length r < length t" by (simp add: res_good_def)
  with assms(2) assms(3) [of r v] have "res_good (Suc n) s (k v r)"
    by (intro res_good_weaken [where t = r]) auto
  with Inr p show ?thesis by simp
qed

lemma res_good_chars_bind:
  assumes "length r < length s"
    and "\<And>k r1. parse_chars r = Inr (k, r1) \<Longrightarrow> res_good n s (K k r1)"
  shows "res_good n s (case parse_chars r of Inl e \<Rightarrow> Inl e | Inr (k, r1) \<Rightarrow> K k r1)"
  using assms parse_chars_error [of r] by (auto simp: res_good_def split: sum.split)

lemma parse_good:
  "res_good n s (parse_value n s) \<and> res_good n s (parse_elems n acc s) \<and>
   res_good n s (parse_member n obj s) \<and> res_good n s (parse_members n obj s)"
proof (induction n arbitrary: s acc obj)
  case 0
  then show ?case by (simp add: res_good_def)
next
  case (Suc n)
  have IHv: "\<And>t. res_good n t (parse_value n t)" and IHe: "\<And>t acc. res_good n t (parse_elems n acc t)"
    and IHm: "\<And>t obj. res_good n t (parse_member n obj t)"
    and IHs: "\<And>t obj. res_good n t (parse_members n obj t)"
    using Suc by blast+
  have pv: "res_good (Suc n) s (parse_value (Suc n) s)"
  proof (cases "skip_ws s")
    case Nil
    then show ?thesis by (simp add: res_good_def)
  next
    case (Cons c cs)
    have lc: "length cs < length s" using Cons by (rule skip_ws_Cons_length)
    have lw: "length (skip_ws cs) \<le> length cs" by (rule skip_ws_length)
    have numc: "res_good (Suc n) s (case number_prefix (c # cs) of None \<Rightarrow> Inl SyntaxError
                 | Some k \<Rightarrow> Inr (JNum (take k (c # cs)), drop k (c # cs)))"
    proof (cases "number_prefix (c # cs)")
      case (Some k)
      then have "0 < k" by (rule number_prefix_pos)
      with lc have "length (drop k (c # cs)) < length s" by simp
      with Some show ?thesis by auto
    qed (simp add: res_good_def)
    have objc: "res_good (Suc n) s (case skip_ws cs of [] \<Rightarrow> Inl SyntaxError
                 | d # r \<Rightarrow> if d = 125 then Inr (JObj [], r) else parse_member n [] (d # r))"
      using lc lw by (auto split: list.split intro: res_good_weaken [OF IHm])
    have arrc: "res_good (Suc n) s (case skip_ws cs of [] \<Rightarrow> Inl SyntaxError
                 | d # r \<Rightarrow> if d = 93 then Inr (JArr [], r)
                           else (case parse_value n (d # r) of Inl e \<Rightarrow> Inl e
                                 | Inr (v, r') \<Rightarrow> parse_elems n [v] r'))"
      using lc lw by (auto split: list.split intro!: res_good_bind [OF IHv _ IHe])
    have strc: "res_good (Suc n) s (case parse_chars cs of Inl e \<Rightarrow> Inl e
                 | Inr (str, r) \<Rightarrow> Inr (JStr str, r))"
    proof (rule res_good_chars_bind [OF lc])
      fix str r
      assume "parse_chars cs = Inr (str, r)"
      then have "length r < length cs" by (rule parse_chars_rest)
      with lc show "res_good (Suc n) s (Inr (JStr str, r))" by auto
    qed
    show ?thesis
      using Cons lc numc objc arrc strc by auto
  qed
  have pe: "res_good (Suc n) s (parse_elems (Suc n) acc s)"
  proof (cases "skip_ws s")
    case Nil
    then show ?thesis by (simp add: res_good_def)
  next
    case (Cons c r)
    have lc: "length r < length s" using Cons by (rule skip_ws_Cons_length)
    then show ?thesis
      using Cons by (auto intro!: res_good_bind [OF IHv _ IHe])
  qed
  have pm: "res_good (Suc n) s (parse_member (Suc n) obj s)"
  proof (cases "skip_ws s")
    case Nil
    then show ?thesis by (simp add: res_good_def)
  next
    case (Cons c r)
    have lc: "length r < length s" using Cons by (rule skip_ws_Cons_length)
    have key: "res_good (Suc n) s (case skip_ws r1 of [] \<Rightarrow> Inl SyntaxError
                 | d # r2 \<Rightarrow> if d = 58 then (case parse_value n r2 of Inl e \<Rightarrow> Inl e
                              | Inr (v, r3) \<Rightarrow> parse_members n (obj_put k v obj) r3)
                            else Inl SyntaxError)"
      if "length r1 < length r" for k r1
    proof (cases "skip_ws r1")
      case Nil
      then show ?thesis by (simp add: res_good_def)
    next
      case (Cons d r2)
      then have "length r2 < length s"
        using that lc skip_ws_Cons_length [OF Cons] by simp
      then show ?thesis
        using Cons by (auto intro!: res_good_bind [OF IHv _ IHs])
    qed
    show ?thesis
      using Cons lc key by (auto intro!: res_good_chars_bind dest: parse_chars_rest)
  qed
  have ps: "res_good (Suc n) s (parse_members (Suc n) obj s)"
  proof (cases "skip_ws s")
    case Nil
    then show ?thesis by (simp add: res_good_def)
  next
    case (Cons c r)
    have lc: "length r < length s" using Cons by (rule skip_ws_Cons_length)
    then show ?thesis
      using Cons by (auto intro: res_good_weaken [OF IHm])
  qed
  show ?case using pv pe pm ps by blast
qed

lemma json_parse_fuel: "json_parse s \<noteq> Inl OutOfFuel"
proof -
  have "res_good (Suc (length s)) s (parse_value (Suc (length s)) s)"
    using parse_good by blast
  then show ?thesis
    by (auto simp: json_parse_def res_good_def split: sum.split prod.split)
qed


subsection \<open>Round trip\<close>

lemma hex_digit_roundtrip: "d < 16 \<Longrightarrow> is_hex (hex_digit d) \<and> hex_val (hex_digit d) = d"
  by (auto simp: hex_digit_def is_hex_def hex_val_def is_digit_def)

lemma hex4_arith:
  fixes c :: nat
  assumes "c < 65536"
  shows "16 * (16 * (16 * (c div 4096 mod 16) + c div 256 mod 16) + c div 16 mod 16) + c mod 16 = c"
proof -
  have d1: "c div 4096 mod 16 = c div 4096"
    using assms by (simp add: div_less_iff_less_mult)
  have d2: "16 * (c div 4096) + c div 256 mod 16 = c div 256"
    using div_mult_mod_eq [of "c div 256" 16] by (simp add: div_mult2_eq [symmetric])
  have d3: "16 * (c div 256) + c div 16 mod 16 = c div 16"
    using div_mult_mod_eq [of "c div 16" 16] by (simp add: div_mult2_eq [symmetric])
  have d4: "16 * (c div 16) + c mod 16 = c"
    using div_mult_mod_eq [of c 16] by simp
  show ?thesis
    by (simp only: d1 d2 d3 d4)
qed

lemma parse_chars_plain:
  "c \<noteq> 34 \<Longrightarrow> c \<noteq> 92 \<Longrightarrow> \<not> c < 32 \<Longrightarrow> parse_chars (c # t) = cons_unit c (parse_chars t)"
  by simp

lemma parse_unicode_escape:
  assumes "c < 65536"
  shows "parse_chars (unicode_escape c @ t) = cons_unit c (parse_chars t)"
proof -
  let ?ds = "[hex_digit (c div 4096 mod 16), hex_digit (c div 256 mod 16),
              hex_digit (c div 16 mod 16), hex_digit (c mod 16)]"
  have hex: "\<forall>d\<in>set ?ds. is_hex d"
    by (simp add: hex_digit_roundtrip)
  have "foldl (\<lambda>a d. 16 * a + hex_val d) 0 ?ds =
        16 * (16 * (16 * (c div 4096 mod 16) + c div 256 mod 16) + c div 16 mod 16) + c mod 16"
    by (simp add: hex_digit_roundtrip)
  also have "\<dots> = c"
    using assms by (rule hex4_arith)
  finally have val: "foldl (\<lambda>a d. 16 * a + hex_val d) 0 ?ds = c" .
  have "escape_value (117 # ?ds @ t) = Some (c, 5)"
    using hex val by (simp add: escape_value_def)
  then show ?thesis
    by (simp add: unicode_escape_def)
qed

lemma parse_escape_unit: "parse_chars (escape_unit c @ t) = cons_unit c (parse_chars t)"
proof (cases "c < 32 \<or> c = 34 \<or> c = 92 \<or> is_high_surrogate c \<or> is_low_surrogate c")
  case False
  then show ?thesis by (simp add: escape_unit_def)
next
  case True
  then have small: "c < 65536"
    by (auto simp: is_high_surrogate_def is_low_surrogate_def)
  consider "c = 8" | "c = 9" | "c = 10" | "c = 12" | "c = 13" | "c = 34" | "c = 92"
    | "c \<notin> {8, 9, 10, 12, 13, 34, 92}"
    by blast
  then show ?thesis
  proof cases
    case 8
    with True small show ?thesis
      by (simp add: escape_unit_def parse_unicode_escape)
  qed (simp_all add: escape_unit_def escape_value_def simple_escape_def)
qed

lemma parse_quote_units: "parse_chars (quote_units s @ 34 # rest) = Inr (s, rest)"
proof (induction s rule: quote_units.induct)
  case 1
  then show ?case by simp
next
  case (2 c)
  then show ?case by (simp add: parse_escape_unit cons_unit_def)
next
  case (3 c d cs)
  show ?case
  proof (cases "is_high_surrogate c \<and> is_low_surrogate d")
    case True
    then have q: "quote_units (c # d # cs) = c # d # quote_units cs" by simp
    from True have plain: "c \<noteq> 34" "c \<noteq> 92" "\<not> c < 32" "d \<noteq> 34" "d \<noteq> 92" "\<not> d < 32"
      by (auto simp: is_high_surrogate_def is_low_surrogate_def)
    have ih: "parse_chars (quote_units cs @ 34 # rest) = Inr (cs, rest)"
      using "3.IH"(1) True by simp
    show ?thesis
      by (simp only: q append_Cons parse_chars_plain [OF plain(1-3)] parse_chars_plain [OF plain(4-6)] ih)
        (simp add: cons_unit_def)
  next
    case False
    have q: "quote_units (c # d # cs) = escape_unit c @ quote_units (d # cs)"
      unfolding quote_units.simps(3) by (rule if_not_P [OF False])
    have ih: "parse_chars (quote_units (d # cs) @ 34 # rest) = Inr (d # cs, rest)"
      using "3.IH"(2) False by simp
    show ?thesis
      by (simp only: q append_assoc parse_escape_unit ih) (simp add: cons_unit_def)
  qed
qed

lemma insert_index_last:
  "\<forall>k'\<in>set (map fst kvs). is_array_index k' \<and> digits_value k' < digits_value k \<Longrightarrow>
   insert_index k v kvs = kvs @ [(k, v)]"
  by (induction kvs) auto

lemma obj_put_appends:
  "appends_last (map fst obj) k \<Longrightarrow> obj_put k v obj = obj @ [(k, v)]"
  by (auto simp: obj_put_def appends_last_def insert_index_last)

lemma join_commas_Cons: "join_commas (x # xs) = x @ concat (map ((#) 44) xs)"
  by (induction xs arbitrary: x rule: join_commas.induct) auto

lemma stringify_start:
  "json_canonical v \<Longrightarrow> \<exists>c t. stringify v = c # t \<and> c \<in> {34, 91, 123, 110, 116, 102}"
  by (cases v) (auto simp: quote_json_def)

lemma skip_ws_stringify:
  assumes "json_canonical v"
  shows "skip_ws (stringify v @ t) = stringify v @ t \<and> stringify v \<noteq> [] \<and> hd (stringify v) \<noteq> 93 \<and> hd (stringify v) \<noteq> 125"
  using stringify_start [OF assms] by auto

lemma parse_elems_stringify:
  assumes "\<forall>w\<in>set ws. json_canonical w \<and> parses_back w"
    and "length (concat (map (\<lambda>w. 44 # stringify w) ws)) < m"
  shows "parse_elems m acc (concat (map (\<lambda>w. 44 # stringify w) ws) @ 93 # rest) = Inr (JArr (acc @ ws), rest)"
  using assms
proof (induction ws arbitrary: m acc)
  case Nil
  then obtain m' where "m = Suc m'" by (cases m) auto
  then show ?case by simp
next
  case (Cons w ws)
  let ?X = "concat (map (\<lambda>w. 44 # stringify w) ws) @ 93 # rest"
  from Cons.prems(2) obtain m' where m: "m = Suc m'" by (cases m) auto
  from Cons.prems have w: "json_canonical w" "parses_back w" by auto
  from Cons.prems(2) m have lw: "length (stringify w) < m'" by simp
  have pv: "parse_value m' (stringify w @ ?X) = Inr (w, ?X)"
    using w(2) lw by blast
  have "parse_elems m' (acc @ [w]) ?X = Inr (JArr ((acc @ [w]) @ ws), rest)"
    using Cons.prems m by (intro Cons.IH) auto
  with pv m show ?case by simp
qed

lemma parse_member_step:
  assumes "parses_back v" and "length (stringify v) < m"
  shows "parse_member (Suc m) obj (quote_json k @ 58 # stringify v @ Y) = parse_members m (obj_put k v obj) Y"
proof -
  have "parse_chars (quote_units k @ 34 # 58 # stringify v @ Y) = Inr (k, 58 # stringify v @ Y)"
    by (rule parse_quote_units)
  moreover have "parse_value m (stringify v @ Y) = Inr (v, Y)"
    using assms by blast
  ultimately show ?thesis
    by (simp add: quote_json_def)
qed

lemma parse_members_stringify:
  assumes "\<forall>(k, v)\<in>set kvs. json_canonical v \<and> parses_back v"
    and "keys_in_order (map fst obj) (map fst kvs)"
    and "length (concat (map (\<lambda>(k, v). 44 # quote_json k @ 58 # stringify v) kvs)) < m"
  shows "parse_members m obj (concat (map (\<lambda>(k, v). 44 # quote_json k @ 58 # stringify v) kvs) @ 125 # rest)
           = Inr (JObj (obj @ kvs), rest)"
  using assms
proof (induction kvs arbitrary: m obj)
  case Nil
  then obtain m' where "m = Suc m'" by (cases m) auto
  then show ?case by simp
next
  case (Cons kv kvs)
  obtain k v where kv: "kv = (k, v)" by (cases kv)
  let ?Y = "concat (map (\<lambda>(k, v). 44 # quote_json k @ 58 # stringify v) kvs) @ 125 # rest"
  from Cons.prems(3) kv have "2 < m" by (simp add: quote_json_def)
  define m' where "m' = m - 2"
  have m: "m = Suc (Suc m')" using \<open>2 < m\<close> by (simp add: m'_def)
  from Cons.prems(1) kv have v: "json_canonical v" "parses_back v" by auto
  from Cons.prems(3) kv m have lv: "length (stringify v) < m'"
    by (simp add: quote_json_def)
  from Cons.prems(2) kv have app: "appends_last (map fst obj) k"
    and rest_order: "keys_in_order (map fst (obj @ [(k, v)])) (map fst kvs)" by auto
  have step: "parse_member (Suc m') obj (quote_json k @ 58 # stringify v @ ?Y) = parse_members m' (obj @ [(k, v)]) ?Y"
    using parse_member_step [OF v(2) lv] obj_put_appends [OF app] by simp
  have "parse_members m' (obj @ [(k, v)]) ?Y = Inr (JObj ((obj @ [(k, v)]) @ kvs), rest)"
    using Cons.prems(1,3) kv m rest_order by (intro Cons.IH) (auto simp: quote_json_def)
  with step kv m show ?case by simp
qed

lemma parse_stringify:
  "json_canonical v \<Longrightarrow> parses_back v"
proof (induction v)
  case JNull
  show ?case
  proof (intro allI impI)
    fix n rest assume "length (stringify JNull) < n"
    then obtain m where "n = Suc m" by (cases n) auto
    then show "parse_value n (stringify JNull @ rest) = Inr (JNull, rest)" by simp
  qed
next
  case (JBool b)
  show ?case
  proof (intro allI impI)
    fix n rest assume "length (stringify (JBool b)) < n"
    then obtain m where "n = Suc m" by (cases n) auto
    then show "parse_value n (stringify (JBool b) @ rest) = Inr (JBool b, rest)" by simp
  qed
next
  case (JNum lit)
  then show ?case by simp
next
  case (JStr s)
  show ?case
  proof (intro allI impI)
    fix n rest assume "length (stringify (JStr s)) < n"
    then obtain m where "n = Suc m" by (cases n) auto
    then show "parse_value n (stringify (JStr s) @ rest) = Inr (JStr s, rest)"
      by (simp add: quote_json_def parse_quote_units)
  qed
next
  case (JArr vs)
  have each: "\<forall>w\<in>set vs. json_canonical w \<and> parses_back w"
    using JArr by auto
  show ?case
  proof (intro allI impI)
    fix n rest assume len: "length (stringify (JArr vs)) < n"
    then obtain m where n: "n = Suc m" by (cases n) auto
    show "parse_value n (stringify (JArr vs) @ rest) = Inr (JArr vs, rest)"
    proof (cases vs)
      case Nil
      with n show ?thesis by simp
    next
      case (Cons w ws)
      let ?X = "concat (map (\<lambda>w. 44 # stringify w) ws) @ 93 # rest"
      have w: "json_canonical w" "parses_back w" and ws: "\<forall>w\<in>set ws. json_canonical w \<and> parses_back w"
        using each Cons by auto
      have str_eq: "stringify (JArr vs) @ rest = 91 # stringify w @ ?X"
        using Cons by (simp add: join_commas_Cons comp_def)
      from len str_eq have lw: "length (stringify w) < m" and lx: "length (concat (map (\<lambda>w. 44 # stringify w) ws)) < m"
        using n by auto
      have pv: "parse_value m (stringify w @ ?X) = Inr (w, ?X)"
        using w(2) lw by blast
      have pe: "parse_elems m [w] ?X = Inr (JArr ([w] @ ws), rest)"
        by (rule parse_elems_stringify [OF ws lx])
      obtain c t where ct: "stringify w = c # t" and "c \<noteq> 93"
        using skip_ws_stringify [OF w(1)] by (cases "stringify w") auto
      have "skip_ws (stringify w @ ?X) = stringify w @ ?X"
        using skip_ws_stringify [OF w(1)] by blast
      with ct \<open>c \<noteq> 93\<close> pv pe n Cons str_eq show ?thesis by simp
    qed
  qed
next
  case (JObj kvs)
  have each: "\<forall>(k, v)\<in>set kvs. json_canonical v \<and> parses_back v"
    using JObj by fastforce
  have order: "keys_in_order [] (map fst kvs)"
    using JObj.prems by simp
  show ?case
  proof (intro allI impI)
    fix n rest assume len: "length (stringify (JObj kvs)) < n"
    then obtain m where n: "n = Suc m" by (cases n) auto
    show "parse_value n (stringify (JObj kvs) @ rest) = Inr (JObj kvs, rest)"
    proof (cases kvs)
      case Nil
      with n show ?thesis by simp
    next
      case (Cons kv kvs')
      obtain k v where kv: "kv = (k, v)" by (cases kv)
      let ?Y = "concat (map (\<lambda>(k, v). 44 # quote_json k @ 58 # stringify v) kvs') @ 125 # rest"
      have v: "json_canonical v" "parses_back v"
        and rest_each: "\<forall>(k, v)\<in>set kvs'. json_canonical v \<and> parses_back v"
        using each Cons kv by auto
      have str_eq: "stringify (JObj kvs) @ rest = 123 # quote_json k @ 58 # stringify v @ ?Y"
        using Cons kv by (simp add: join_commas_Cons comp_def split_def)
      from len str_eq n have "2 < m" by (simp add: quote_json_def)
      define m' where "m' = m - 2"
      have m: "m = Suc (Suc m')" using \<open>2 < m\<close> by (simp add: m'_def)
      from len str_eq n m have lv: "length (stringify v) < Suc m'"
        and ly: "length (concat (map (\<lambda>(k, v). 44 # quote_json k @ 58 # stringify v) kvs')) < Suc m'"
        by (auto simp: quote_json_def)
      have first: "parse_member m [] (quote_json k @ 58 # stringify v @ ?Y) = parse_members (Suc m') [(k, v)] ?Y"
      proof -
        have "obj_put k v [] = [(k, v)]" by (simp add: obj_put_def)
        with parse_member_step [OF v(2) lv, of "[]" k ?Y] show ?thesis by (simp only: m)
      qed
      have "keys_in_order [k] (map fst kvs')"
        using order Cons kv by simp
      then have "parse_members (Suc m') [(k, v)] ?Y = Inr (JObj ([(k, v)] @ kvs'), rest)"
        using parse_members_stringify [OF rest_each _ ly] by simp
      with first n Cons kv str_eq show ?thesis
        by (simp add: quote_json_def)
    qed
  qed
qed

text \<open>The round trip: for every canonical value (no numbers, object keys distinct and in
  the engine's enumeration order), \<open>JSON.parse (JSON.stringify v)\<close> is \<open>v\<close>.\<close>

lemma json_roundtrip:
  assumes "json_canonical v"
  shows "json_parse (stringify v) = Inr v"
proof -
  have "parse_value (Suc (length (stringify v))) (stringify v @ []) = Inr (v, [])"
    using parse_stringify [OF assms] by blast
  then show ?thesis by (simp add: json_parse_def)
qed

end
