(* ===== verification/Snapshot.thy ===== *)
theory Snapshot
  imports Skills Json_Parse
begin

text \<open>
  The persisted snapshot of the list (src/src/App.jsx lines 16 to 23): the text
  \<open>JSON.stringify(skills)\<close> that effect 2 writes under the key \<open>'skills'\<close>, and the
  reading of \<open>JSON.parse\<close>'s result as the list of entries by effect 1. An entry is the
  object \<open>{name, user, type}\<close> built by the form (line 13, and the spreads of lines 71,
  80 and 88, which keep the key order), so it is written as a JSON object with exactly
  these three string-valued keys in this order (\<open>encode_skill\<close>). \<open>decode_skills\<close>
  reads a parsed value back: an array of such objects is a list of entries; any other array
  is a value the component never writes (\<open>None\<close>), and a value that is not an array is
  recognised separately by \<open>is_js_array\<close>, since the component's first render after
  loading it throws (\<open>skills.filter\<close>, line 32, is not a function).

  The lemmas show that every snapshot the component writes is a canonical JSON value, so
  that \<open>JSON.parse\<close> of the written text, read back as entries, gives exactly the
  list.
\<close>

definition key_name :: ustr where
  "key_name = ascii ''name''"

definition key_user :: ustr where
  "key_user = ascii ''user''"

definition key_type :: ustr where
  "key_type = ascii ''type''"

definition encode_skill :: "skill \<Rightarrow> json" where
  "encode_skill s = JObj [(key_name, JStr (name s)), (key_user, JStr (user s)), (key_type, JStr (type s))]"

definition encode_skills :: "skill list \<Rightarrow> json" where
  "encode_skills ss = JArr (map encode_skill ss)"

definition snapshot_text :: "skill list \<Rightarrow> ustr" where
  "snapshot_text ss = stringify (encode_skills ss)"

definition decode_skill :: "json \<Rightarrow> skill option" where
  "decode_skill j =
     (case j of
        JObj [(k1, JStr a), (k2, JStr b), (k3, JStr c)] \<Rightarrow>
          if k1 = key_name \<and> k2 = key_user \<and> k3 = key_type
          then Some \<lparr>name = a, user = b, type = c\<rparr> else None
      | _ \<Rightarrow> None)"

definition decode_skills :: "json \<Rightarrow> skill list option" where
  "decode_skills j = (case j of JArr vs \<Rightarrow> those (map decode_skill vs) | _ \<Rightarrow> None)"

definition is_js_array :: "json \<Rightarrow> bool" where
  "is_js_array j = (case j of JArr _ \<Rightarrow> True | _ \<Rightarrow> False)"

lemma keys_not_index [simp]:
  "\<not> is_array_index key_name" "\<not> is_array_index key_user" "\<not> is_array_index key_type"
  by (simp_all add: is_array_index_def key_name_def key_user_def key_type_def is_digit_def)

lemma keys_distinct [simp]:
  "key_name \<noteq> key_user" "key_name \<noteq> key_type" "key_user \<noteq> key_type"
  "key_user \<noteq> key_name" "key_type \<noteq> key_name" "key_type \<noteq> key_user"
  by (simp_all add: key_name_def key_user_def key_type_def)

lemma encode_skills_canonical: "json_canonical (encode_skills ss)"
  by (simp add: encode_skills_def encode_skill_def appends_last_def)

lemma decode_encode_skills: "decode_skills (encode_skills ss) = Some ss"
proof -
  have "those (map decode_skill (map encode_skill ss)) = Some ss"
    by (induction ss) (simp_all add: decode_skill_def encode_skill_def)
  then show ?thesis by (simp add: decode_skills_def encode_skills_def)
qed

lemma snapshot_parse: "json_parse (snapshot_text ss) = Inr (encode_skills ss)"
  unfolding snapshot_text_def by (rule json_roundtrip [OF encode_skills_canonical])

lemma snapshot_text_nonempty: "snapshot_text ss \<noteq> []"
  by (simp add: snapshot_text_def encode_skills_def)

subsection \<open>Properties of the snapshot\<close>

text \<open>C6. Round trip of the snapshot: the text effect 2 writes for any list of entries,
  parsed by \<open>JSON.parse\<close> and read as entries, is the same list (same entries, same
  order, duplicates kept), whatever code units the names and users contain.\<close>

theorem snapshot_roundtrip:
  "(case json_parse (snapshot_text ss) of Inl e \<Rightarrow> None | Inr j \<Rightarrow> decode_skills j) = Some ss"
  by (simp add: snapshot_parse decode_encode_skills)

end
