(* ===== verification/App.thy ===== *)
theory App
  imports Snapshot
begin

text \<open>
  The component \<open>TruekaApp\<close> (src/src/App.jsx) as a state machine. Its state
  \<open>app_state\<close> holds the three \<open>useState\<close> hooks of lines 12 to 14 and the value
  stored in \<open>localStorage\<close> under the key \<open>'skills'\<close> (\<open>None\<close> when the key is
  absent). React runs the component in commits: a render computes the view from the
  state, then the passive effects whose dependencies changed run in their order of
  declaration, and the state updates they schedule are applied before the next render.

  \<^item> \<open>load_effect\<close> is effect 1 (lines 16 to 19): it reads the key and, when the text is
    truthy, schedules \<open>setSkills(JSON.parse(text))\<close>; a \<open>SyntaxError\<close> thrown by
    \<open>JSON.parse\<close> is not caught. \<open>save_effect\<close> is effect 2 (lines 21 to 23): it writes
    \<open>JSON.stringify(skills)\<close> of the rendered state.
  \<^item> \<open>mount\<close> is the first commit: initial state (lines 12 to 14), effect 1, effect 2, then
    the scheduled update and, when there is one, the re-render and effect 2 again
    (\<open>commit_updates\<close>: the last scheduled value wins, as in React's update queue). An
    exception in effect 1 skips the component's remaining effects and unmounts the root
    (\<open>Crashed\<close>, with the storage as it was); a stored value that is not an array makes
    the next render throw at \<open>skills.filter\<close> (line 32). A stored array of values the
    component never writes is outside the model (\<open>Unmodelled\<close>).
  \<^item> \<open>strict_mount\<close> is the first commit under \<open><React.StrictMode>\<close> in development,
    where React runs every effect of a new component twice (mount, simulated unmount,
    mount again) before applying the scheduled updates.
  \<^item> \<open>app_event\<close> is one user interaction: the handler, the re-render and effect 2 when
    \<open>skills\<close> changed. The events are typing in the name and user inputs (lines 71 and
    80), choosing the type (line 88), pressing the button (\<open>handleAddSkill\<close>, lines 25 to
    30 and 100) and choosing the filter (line 107); \<open>ui_event\<close> restricts the selected
    values to the \<open>SelectItem\<close> values of lines 94, 95 and 112 to 114.
  \<^item> \<open>reachable st0\<close> is the set of states reachable from a mount on the stored value
    \<open>st0\<close> by user events; the rendered content is in theory \<open>View\<close>.
\<close>

record app_state =
  skills :: "skill list"
  newSkill :: skill
  filterType :: ustr
  stored :: "ustr option"

datatype load_result =
    NoUpdate
  | SetSkills "skill list"
  | SetsNonArray json
  | SetsUnknownArray json
  | LoadThrows json_error

datatype crash = ParseError json_error | SkillsNotArray json

datatype mount_outcome = Running app_state | Crashed crash app_state | Unmodelled json

definition initial_state :: "ustr option \<Rightarrow> app_state" where
  "initial_state st0 = \<lparr>skills = [], newSkill = empty_skill, filterType = filter_todos, stored = st0\<rparr>"

definition load_effect :: "ustr option \<Rightarrow> load_result" where
  "load_effect storedSkills =
     (case storedSkills of
        None \<Rightarrow> NoUpdate
      | Some txt \<Rightarrow>
          if js_truthy_str txt then
            (case json_parse txt of
               Inl e \<Rightarrow> LoadThrows e
             | Inr j \<Rightarrow>
                 (case decode_skills j of
                    Some ss \<Rightarrow> SetSkills ss
                  | None \<Rightarrow> if is_js_array j then SetsUnknownArray j else SetsNonArray j))
          else NoUpdate)"

definition save_effect :: "app_state \<Rightarrow> app_state" where
  "save_effect st = st\<lparr>stored := Some (snapshot_text (skills st))\<rparr>"

definition last_update :: "load_result list \<Rightarrow> load_result" where
  "last_update us = fold (\<lambda>u acc. case u of NoUpdate \<Rightarrow> acc | _ \<Rightarrow> u) us NoUpdate"

definition commit_updates :: "load_result list \<Rightarrow> app_state \<Rightarrow> mount_outcome" where
  "commit_updates us st =
     (case last_update us of
        SetSkills ss \<Rightarrow> Running (save_effect (st\<lparr>skills := ss\<rparr>))
      | SetsNonArray j \<Rightarrow> Crashed (SkillsNotArray j) st
      | SetsUnknownArray j \<Rightarrow> Unmodelled j
      | _ \<Rightarrow> Running st)"

definition mount :: "ustr option \<Rightarrow> mount_outcome" where
  "mount st0 =
     (let s0 = initial_state st0;
          r1 = load_effect (stored s0)
      in case r1 of
           LoadThrows e \<Rightarrow> Crashed (ParseError e) s0
         | _ \<Rightarrow> commit_updates [r1] (save_effect s0))"

definition strict_mount :: "ustr option \<Rightarrow> mount_outcome" where
  "strict_mount st0 =
     (let s0 = initial_state st0;
          r1 = load_effect (stored s0)
      in case r1 of
           LoadThrows e \<Rightarrow> Crashed (ParseError e) s0
         | _ \<Rightarrow>
             let s1 = save_effect s0;
                 r2 = load_effect (stored s1)
             in case r2 of
                  LoadThrows e \<Rightarrow> Crashed (ParseError e) s1
                | _ \<Rightarrow> commit_updates [r1, r2] (save_effect s1))"

datatype event =
    EditName ustr
  | EditUser ustr
  | EditType ustr
  | ClickAdd
  | ChooseFilter ustr

definition add_guard :: "app_state \<Rightarrow> bool" where
  "add_guard st \<longleftrightarrow> js_truthy_str (name (newSkill st)) \<and> js_truthy_str (user (newSkill st))"

definition handle_add_skill :: "app_state \<Rightarrow> app_state" where
  "handle_add_skill st =
     (if add_guard st
      then st\<lparr>skills := skills st @ [newSkill st], newSkill := empty_skill\<rparr>
      else st)"

text \<open>
  The handlers bound in the markup: \<open>setNewSkill({...newSkill, f: value})\<close> for the two
  inputs and the type select (lines 71, 80, 88) and \<open>setFilterType\<close> for the filter
  select (line 107). None of them changes \<open>skills\<close>, so effect 2 does not run after them.
\<close>

definition set_name :: "app_state \<Rightarrow> ustr \<Rightarrow> app_state" where
  "set_name st v = st\<lparr>newSkill := (newSkill st)\<lparr>name := v\<rparr>\<rparr>"

definition set_user :: "app_state \<Rightarrow> ustr \<Rightarrow> app_state" where
  "set_user st v = st\<lparr>newSkill := (newSkill st)\<lparr>user := v\<rparr>\<rparr>"

definition set_type :: "app_state \<Rightarrow> ustr \<Rightarrow> app_state" where
  "set_type st v = st\<lparr>newSkill := (newSkill st)\<lparr>type := v\<rparr>\<rparr>"

definition set_filter :: "app_state \<Rightarrow> ustr \<Rightarrow> app_state" where
  "set_filter st v = st\<lparr>filterType := v\<rparr>"

text \<open>
  One interaction and the commit it causes. After \<open>handleAddSkill\<close> with a complete
  draft, \<open>skills\<close> is a new array (\<open>[...skills, newSkill]\<close>), so effect 2 runs on the
  re-rendered state; with an incomplete draft no state changes and nothing runs.
\<close>

fun app_event :: "app_state \<Rightarrow> event \<Rightarrow> app_state" where
  "app_event st (EditName v) = set_name st v"
| "app_event st (EditUser v) = set_user st v"
| "app_event st (EditType v) = set_type st v"
| "app_event st ClickAdd = (if add_guard st then save_effect (handle_add_skill st) else st)"
| "app_event st (ChooseFilter v) = set_filter st v"

text \<open>The values of the \<open>SelectItem\<close>s of the type select (lines 94, 95) and of the
  filter select (lines 112 to 114): a select reports only the value of an item.\<close>

definition type_options :: "ustr list" where
  "type_options = [kind_ofrece, kind_busca]"

definition filter_options :: "ustr list" where
  "filter_options = [filter_todos, kind_ofrece, kind_busca]"

definition ui_event :: "event \<Rightarrow> bool" where
  "ui_event e =
     (case e of
        EditType v \<Rightarrow> v \<in> set type_options
      | ChooseFilter v \<Rightarrow> v \<in> set filter_options
      | _ \<Rightarrow> True)"

inductive reachable :: "ustr option \<Rightarrow> app_state \<Rightarrow> bool" for st0 :: "ustr option" where
  mounted: "mount st0 = Running st \<Longrightarrow> reachable st0 st"
| step: "reachable st0 st \<Longrightarrow> ui_event e \<Longrightarrow> reachable st0 (app_event st e)"

text \<open>A sequence of interactions, applied in order.\<close>

fun run_events :: "app_state \<Rightarrow> event list \<Rightarrow> app_state" where
  "run_events st [] = st"
| "run_events st (e # es) = run_events (app_event st e) es"

definition app_inv :: "app_state \<Rightarrow> bool" where
  "app_inv st \<longleftrightarrow>
     stored st = Some (snapshot_text (skills st)) \<and>
     (type (newSkill st) = kind_ofrece \<or> type (newSkill st) = kind_busca) \<and>
     (filterType st = filter_todos \<or> filterType st = kind_ofrece \<or> filterType st = kind_busca)"

definition skill_wf :: "skill \<Rightarrow> bool" where
  "skill_wf s \<longleftrightarrow>
     js_truthy_str (name s) \<and> js_truthy_str (user s) \<and> (type s = kind_ofrece \<or> type s = kind_busca)"

subsection \<open>Lemmas\<close>

lemmas handler_defs = set_name_def set_user_def set_type_def set_filter_def
  type_options_def filter_options_def

lemma last_update_simps [simp]:
  "last_update [] = NoUpdate"
  "last_update (u # us) = fold (\<lambda>u acc. case u of NoUpdate \<Rightarrow> acc | _ \<Rightarrow> u) us (case u of NoUpdate \<Rightarrow> NoUpdate | _ \<Rightarrow> u)"
  by (simp_all add: last_update_def)

lemma load_snapshot: "load_effect (Some (snapshot_text ss)) = SetSkills ss"
  by (simp add: load_effect_def snapshot_parse decode_encode_skills snapshot_text_nonempty js_truthy_str_def)

lemma mount_app_inv: "mount st0 = Running st \<Longrightarrow> app_inv st"
  unfolding mount_def Let_def
  by (cases "load_effect st0")
    (auto simp: commit_updates_def app_inv_def save_effect_def initial_state_def empty_skill_def)

lemma app_event_inv: "app_inv st \<Longrightarrow> ui_event e \<Longrightarrow> app_inv (app_event st e)"
  by (cases e) (auto simp: app_inv_def ui_event_def handler_defs save_effect_def handle_add_skill_def
      empty_skill_def)

lemma app_event_wf:
  assumes "app_inv st" and "\<forall>s\<in>set (skills st). skill_wf s"
  shows "\<forall>s\<in>set (skills (app_event st e)). skill_wf s"
  using assms
  by (cases e) (auto simp: app_inv_def handler_defs save_effect_def handle_add_skill_def add_guard_def
      skill_wf_def)

lemma reachable_inv_wf:
  assumes "reachable (Some (snapshot_text ss0)) st" and "\<forall>s\<in>set ss0. skill_wf s"
  shows "app_inv st \<and> (\<forall>s\<in>set (skills st). skill_wf s)"
  using assms(1)
proof (induction rule: reachable.induct)
  case (mounted st)
  then have "st = \<lparr>skills = ss0, newSkill = empty_skill, filterType = filter_todos,
                   stored = Some (snapshot_text ss0)\<rparr>"
    by (simp add: mount_def load_snapshot commit_updates_def save_effect_def initial_state_def)
  with assms(2) mounted show ?case by (simp add: mount_app_inv)
next
  case (step st e)
  then have "app_inv st" and "\<forall>s\<in>set (skills st). skill_wf s" by simp_all
  with step.hyps(2) show ?case by (simp add: app_event_inv app_event_wf [of st])
qed

lemma reachable_run_events:
  "reachable st0 st \<Longrightarrow> list_all ui_event es \<Longrightarrow> reachable st0 (run_events st es)"
  by (induction es arbitrary: st) (auto intro: reachable.step)

subsection \<open>Properties of the component\<close>

text \<open>C4. \<open>handleAddSkill\<close> with a non-empty name and user appends the draft at the end
  of the list, resets the draft to \<open>{name: '', user: '', type: 'ofrece'}\<close>, keeps the
  filter, and effect 2 writes the JSON of the new list.\<close>

theorem app_event_add:
  assumes "add_guard st"
  shows "skills (app_event st ClickAdd) = skills st @ [newSkill st] \<and>
         newSkill (app_event st ClickAdd) = empty_skill \<and>
         filterType (app_event st ClickAdd) = filterType st \<and>
         stored (app_event st ClickAdd) = Some (snapshot_text (skills st @ [newSkill st]))"
  using assms by (simp add: handle_add_skill_def save_effect_def)

text \<open>C5. When the draft's name or user is empty, pressing the button changes nothing:
  the list, the draft, the filter and the stored snapshot stay as they were.\<close>

theorem app_event_reject:
  assumes "\<not> js_truthy_str (name (newSkill st)) \<or> \<not> js_truthy_str (user (newSkill st))"
  shows "app_event st ClickAdd = st"
  using assms by (auto simp: add_guard_def)

text \<open>C1. In every state reachable by user interaction after a successful mount, the
  stored snapshot is the JSON of the current list, the draft's type is
  \<open>'ofrece'\<close> or \<open>'busca'\<close> and the filter is one of the three select values.\<close>

theorem reachable_app_inv:
  assumes "reachable st0 st"
  shows "app_inv st"
  using assms
proof (induction rule: reachable.induct)
  case (mounted st)
  then show ?case by (rule mount_app_inv)
next
  case (step st e)
  from step.IH step.hyps(2) show ?case by (rule app_event_inv)
qed

text \<open>C7. Mounting with a snapshot the component wrote restores exactly that list (same
  entries, same order) with an empty draft and the filter \<open>'todos'\<close>, and leaves the
  same snapshot stored.\<close>

theorem mount_restores:
  "mount (Some (snapshot_text ss)) =
     Running \<lparr>skills = ss, newSkill = empty_skill, filterType = filter_todos,
              stored = Some (snapshot_text ss)\<rparr>"
  by (simp add: mount_def load_snapshot commit_updates_def save_effect_def initial_state_def)

text \<open>C16. Mounting with no stored key, or with the empty string stored, starts with the
  empty list and writes the snapshot \<open>"[]"\<close>.\<close>

theorem mount_without_snapshot:
  "mount None = Running \<lparr>skills = [], newSkill = empty_skill, filterType = filter_todos,
                          stored = Some (snapshot_text [])\<rparr> \<and>
   mount (Some []) = Running \<lparr>skills = [], newSkill = empty_skill, filterType = filter_todos,
                               stored = Some (snapshot_text [])\<rparr>"
  by (simp add: mount_def load_effect_def js_truthy_str_def commit_updates_def save_effect_def
      initial_state_def)

text \<open>C8. Mounting with a non-empty stored text that is not JSON does not fall back to the
  empty list: \<open>JSON.parse\<close> throws, the exception escapes effect 1 and the component
  crashes, leaving the malformed text stored, so every later mount crashes again.\<close>

theorem mount_malformed:
  assumes "json_parse txt = Inl SyntaxError" and "txt \<noteq> []"
  shows "mount (Some txt) = Crashed (ParseError SyntaxError) (initial_state (Some txt))"
  using assms by (simp add: mount_def load_effect_def js_truthy_str_def initial_state_def)

text \<open>C15. Under React's development StrictMode the mount loses the stored list: effect 2's
  first run writes \<open>"[]"\<close>, the second run of effect 1 reads it back, and its
  \<open>setSkills([])\<close> is applied after the one that restored the list.\<close>

theorem strict_mount_loses_snapshot:
  "strict_mount (Some (snapshot_text ss)) =
     Running \<lparr>skills = [], newSkill = empty_skill, filterType = filter_todos,
              stored = Some (snapshot_text [])\<rparr>"
  by (simp add: strict_mount_def load_snapshot commit_updates_def save_effect_def initial_state_def)

text \<open>C19. When the stored snapshot holds only well-formed entries (non-empty name and user,
  type \<open>'ofrece'\<close> or \<open>'busca'\<close>), every entry of every reachable state is well
  formed: user interaction only appends entries that pass the guard with a selectable type.\<close>

theorem reachable_entries_wf:
  assumes "reachable (Some (snapshot_text ss0)) st" and "\<forall>s\<in>set ss0. skill_wf s"
  shows "\<forall>s\<in>set (skills st). skill_wf s"
  using reachable_inv_wf [OF assms] by simp

text \<open>C14. A stored text that parses to a JSON value other than an array (for instance
  \<open>"null"\<close> or an object) is not treated as an empty list: effect 1 schedules
  \<open>setSkills\<close> with it, effect 2 has already overwritten the snapshot with \<open>"[]"\<close>, and
  the re-render throws at \<open>skills.filter\<close>. The stored entries are lost.\<close>

theorem mount_non_array:
  assumes "json_parse txt = Inr j" and "\<not> is_js_array j"
  shows "mount (Some txt) =
           Crashed (SkillsNotArray j) ((initial_state (Some txt))\<lparr>stored := Some (snapshot_text [])\<rparr>)"
proof -
  have "txt \<noteq> []"
    using assms(1) by (auto simp: json_parse_def)
  moreover have "decode_skills j = None"
    using assms(2) by (auto simp: decode_skills_def is_js_array_def split: json.splits)
  ultimately show ?thesis
    using assms
    by (simp add: mount_def load_effect_def js_truthy_str_def commit_updates_def save_effect_def
        initial_state_def)
qed

text \<open>C18. Editing the draft or choosing a filter changes neither the list nor the stored
  snapshot: only the add button writes to \<open>localStorage\<close>.\<close>

theorem app_event_frame:
  assumes "e \<noteq> ClickAdd"
  shows "skills (app_event st e) = skills st \<and> stored (app_event st e) = stored st"
  using assms by (cases e) (simp_all add: handler_defs)

text \<open>C17. The list only grows at its end: after any interaction, the previous list is a
  prefix of the new one (no entry is edited, removed or reordered).\<close>

theorem app_event_append_only: "prefix (skills st) (skills (app_event st e))"
  by (cases e) (simp_all add: handler_defs handle_add_skill_def save_effect_def)

text \<open>C20. From every reachable state the user can post any entry with a non-empty name
  and user: typing them and pressing the button leads to a reachable state whose list is
  the old one with that entry appended, of the type currently selected.\<close>

theorem reachable_post:
  assumes "reachable st0 st" and "v \<noteq> []" and "u \<noteq> []"
  shows "reachable st0 (app_event (app_event (app_event st (EditName v)) (EditUser u)) ClickAdd) \<and>
         skills (app_event (app_event (app_event st (EditName v)) (EditUser u)) ClickAdd) =
           skills st @ [\<lparr>name = v, user = u, type = type (newSkill st)\<rparr>]"
proof -
  have r: "reachable st0 (app_event (app_event st (EditName v)) (EditUser u))"
    using assms(1) by (intro reachable.step) (simp_all add: ui_event_def)
  have "reachable st0 (app_event (app_event (app_event st (EditName v)) (EditUser u)) ClickAdd)"
    using r by (rule reachable.step) (simp add: ui_event_def)
  moreover have "skills (app_event (app_event (app_event st (EditName v)) (EditUser u)) ClickAdd) =
           skills st @ [\<lparr>name = v, user = u, type = type (newSkill st)\<rparr>]"
    using assms(2,3)
    by (simp add: handler_defs add_guard_def js_truthy_str_def handle_add_skill_def save_effect_def)
  ultimately show ?thesis by blast
qed

text \<open>C9. Over any sequence of interactions the list only grows at its end, by at most
  one entry per press of the button, and the states stay reachable when the selects report
  their item values.\<close>

theorem run_events_append_only:
  assumes "reachable st0 st" and "list_all ui_event es"
  shows "reachable st0 (run_events st es) \<and> prefix (skills st) (skills (run_events st es)) \<and>
         length (skills (run_events st es)) \<le> length (skills st) + count_list es ClickAdd"
proof -
  have "prefix (skills st) (skills (run_events st es)) \<and>
        length (skills (run_events st es)) \<le> length (skills st) + count_list es ClickAdd" for st
  proof (induction es arbitrary: st)
    case Nil
    then show ?case by simp
  next
    case (Cons e es)
    have step: "prefix (skills st) (skills (app_event st e)) \<and>
                length (skills (app_event st e)) \<le> length (skills st) + (if e = ClickAdd then 1 else 0)"
      by (cases e) (simp_all add: handler_defs handle_add_skill_def save_effect_def)
    from Cons.IH [of "app_event st e"] step show ?case
      by (auto intro: prefix_order.trans)
  qed
  with reachable_run_events [OF assms] show ?thesis by blast
qed

theorem app_event_add_witness:
  "add_guard \<lparr>skills = [], newSkill = \<lparr>name = ascii ''Yoga'', user = ascii ''Ana'', type = kind_ofrece\<rparr>,
              filterType = filter_todos, stored = Some (snapshot_text [])\<rparr> \<and>
   skills (app_event \<lparr>skills = [], newSkill = \<lparr>name = ascii ''Yoga'', user = ascii ''Ana'', type = kind_ofrece\<rparr>,
              filterType = filter_todos, stored = Some (snapshot_text [])\<rparr> ClickAdd)
     = [\<lparr>name = ascii ''Yoga'', user = ascii ''Ana'', type = kind_ofrece\<rparr>]"
  using app_event_add [of "\<lparr>skills = [], newSkill = \<lparr>name = ascii ''Yoga'', user = ascii ''Ana'', type = kind_ofrece\<rparr>,
              filterType = filter_todos, stored = Some (snapshot_text [])\<rparr>"]
  by (simp add: add_guard_def js_truthy_str_def)

theorem app_event_reject_witness:
  "\<not> js_truthy_str (user \<lparr>name = ascii ''Cocina'', user = [], type = kind_ofrece\<rparr>) \<and>
   app_event \<lparr>skills = [], newSkill = \<lparr>name = ascii ''Cocina'', user = [], type = kind_ofrece\<rparr>,
              filterType = filter_todos, stored = Some (snapshot_text [])\<rparr> ClickAdd
   = \<lparr>skills = [], newSkill = \<lparr>name = ascii ''Cocina'', user = [], type = kind_ofrece\<rparr>,
              filterType = filter_todos, stored = Some (snapshot_text [])\<rparr>"
  using app_event_reject [of "\<lparr>skills = [], newSkill = \<lparr>name = ascii ''Cocina'', user = [], type = kind_ofrece\<rparr>,
              filterType = filter_todos, stored = Some (snapshot_text [])\<rparr>"]
  by (simp add: js_truthy_str_def)

theorem reachable_app_inv_witness:
  "reachable None \<lparr>skills = [], newSkill = empty_skill, filterType = filter_todos,
                    stored = Some (snapshot_text [])\<rparr> \<and>
   app_inv \<lparr>skills = [], newSkill = empty_skill, filterType = filter_todos,
            stored = Some (snapshot_text [])\<rparr>"
proof -
  have r: "reachable None \<lparr>skills = [], newSkill = empty_skill, filterType = filter_todos,
                           stored = Some (snapshot_text [])\<rparr>"
    by (rule reachable.mounted)
      (simp add: mount_def load_effect_def commit_updates_def save_effect_def initial_state_def)
  show ?thesis using r reachable_app_inv [OF r] by simp
qed

theorem mount_malformed_witness:
  "json_parse (ascii ''{'') = Inl SyntaxError \<and> ascii ''{'' \<noteq> [] \<and>
   mount (Some (ascii ''{'')) = Crashed (ParseError SyntaxError) (initial_state (Some (ascii ''{'')))"
proof -
  have p: "json_parse (ascii ''{'') = Inl SyntaxError"
    by (simp add: json_parse_def)
  show ?thesis using mount_malformed [OF p] p by simp
qed

theorem reachable_entries_wf_witness:
  "reachable (Some (snapshot_text [\<lparr>name = ascii ''Yoga'', user = ascii ''Ana'', type = kind_ofrece\<rparr>]))
     \<lparr>skills = [\<lparr>name = ascii ''Yoga'', user = ascii ''Ana'', type = kind_ofrece\<rparr>], newSkill = empty_skill,
      filterType = filter_todos,
      stored = Some (snapshot_text [\<lparr>name = ascii ''Yoga'', user = ascii ''Ana'', type = kind_ofrece\<rparr>])\<rparr> \<and>
   skill_wf \<lparr>name = ascii ''Yoga'', user = ascii ''Ana'', type = kind_ofrece\<rparr>"
proof -
  let ?ss = "[\<lparr>name = ascii ''Yoga'', user = ascii ''Ana'', type = kind_ofrece\<rparr>]"
  let ?st = "\<lparr>skills = ?ss, newSkill = empty_skill, filterType = filter_todos,
              stored = Some (snapshot_text ?ss)\<rparr>"
  have r: "reachable (Some (snapshot_text ?ss)) ?st"
    by (rule reachable.mounted)
      (simp add: mount_def load_snapshot commit_updates_def save_effect_def initial_state_def)
  have wf: "\<forall>s\<in>set ?ss. skill_wf s"
    by (simp add: skill_wf_def js_truthy_str_def)
  show ?thesis using r reachable_entries_wf [OF r wf] by simp
qed

theorem mount_non_array_witness:
  "json_parse (ascii ''null'') = Inr JNull \<and> \<not> is_js_array JNull \<and>
   mount (Some (ascii ''null'')) =
     Crashed (SkillsNotArray JNull) ((initial_state (Some (ascii ''null'')))\<lparr>stored := Some (snapshot_text [])\<rparr>)"
proof -
  have p: "json_parse (ascii ''null'') = Inr JNull"
    by (simp add: json_parse_def)
  have a: "\<not> is_js_array JNull"
    by (simp add: is_js_array_def)
  show ?thesis using mount_non_array [OF p a] p a by simp
qed

theorem app_event_frame_witness:
  "EditName (ascii ''Yoga'') \<noteq> ClickAdd \<and>
   skills (app_event (initial_state None) (EditName (ascii ''Yoga''))) = [] \<and>
   stored (app_event (initial_state None) (EditName (ascii ''Yoga''))) = None"
  using app_event_frame [of "EditName (ascii ''Yoga'')" "initial_state None"]
  by (simp add: initial_state_def)

theorem reachable_post_witness:
  "reachable None (initial_state None\<lparr>stored := Some (snapshot_text [])\<rparr>) \<and>
   ascii ''Yoga'' \<noteq> [] \<and> ascii ''Ana'' \<noteq> [] \<and>
   skills (app_event (app_event (app_event (initial_state None\<lparr>stored := Some (snapshot_text [])\<rparr>)
     (EditName (ascii ''Yoga''))) (EditUser (ascii ''Ana''))) ClickAdd) =
     [\<lparr>name = ascii ''Yoga'', user = ascii ''Ana'', type = kind_ofrece\<rparr>]"
proof -
  have r: "reachable None (initial_state None\<lparr>stored := Some (snapshot_text [])\<rparr>)"
    by (rule reachable.mounted)
      (simp add: mount_def load_effect_def commit_updates_def save_effect_def initial_state_def)
  show ?thesis
    using r reachable_post [OF r, of "ascii ''Yoga''" "ascii ''Ana''"]
    by (simp add: initial_state_def empty_skill_def)
qed

theorem run_events_append_only_witness:
  "reachable None (initial_state None\<lparr>stored := Some (snapshot_text [])\<rparr>) \<and>
   list_all ui_event [EditName (ascii ''Yoga''), EditUser (ascii ''Ana''), ClickAdd, ClickAdd] \<and>
   skills (run_events (initial_state None\<lparr>stored := Some (snapshot_text [])\<rparr>)
     [EditName (ascii ''Yoga''), EditUser (ascii ''Ana''), ClickAdd, ClickAdd]) =
     [\<lparr>name = ascii ''Yoga'', user = ascii ''Ana'', type = kind_ofrece\<rparr>]"
proof -
  have r: "reachable None (initial_state None\<lparr>stored := Some (snapshot_text [])\<rparr>)"
    by (rule reachable.mounted)
      (simp add: mount_def load_effect_def commit_updates_def save_effect_def initial_state_def)
  have u: "list_all ui_event [EditName (ascii ''Yoga''), EditUser (ascii ''Ana''), ClickAdd, ClickAdd]"
    by (simp add: ui_event_def)
  show ?thesis
    using r u run_events_append_only [OF r u]
    by (simp add: initial_state_def empty_skill_def handler_defs add_guard_def js_truthy_str_def
        handle_add_skill_def save_effect_def)
qed

end
