(* ===== verification/View.thy ===== *)
theory View
  imports App
begin

text \<open>
  The content the markup of \<open>TruekaApp\<close> shows for a state (src/src/App.jsx lines 119
  to 148): one card per entry of \<open>filteredSkills\<close> with its name, its user and the label
  \<open>"Ofrece"\<close> or \<open>"Busca"\<close> (line 126: every type other than \<open>'ofrece'\<close> is
  labelled \<open>"Busca"\<close>), and under the heading of matches either the sentence
  \<open>"A\<close>U+00FA\<open>n no hay coincidencias."\<close> (line 136) or one sentence per match of
  \<open>getMatches()\<close> (line 142), in order. Class names, keys and the static text of lines 52
  to 65 do not depend on the state and are not modelled.
\<close>

record skill_card =
  card_name :: ustr
  card_user :: ustr
  card_label :: ustr

definition label_ofrece :: ustr where
  "label_ofrece = ascii ''Ofrece''"

definition label_busca :: ustr where
  "label_busca = ascii ''Busca''"

definition skill_card_of :: "skill \<Rightarrow> skill_card" where
  "skill_card_of skill =
     \<lparr>card_name = name skill, card_user = user skill,
      card_label = (if type skill = kind_ofrece then label_ofrece else label_busca)\<rparr>"

definition no_matches_text :: ustr where
  "no_matches_text = ascii ''A'' @ [250] @ ascii ''n no hay coincidencias.''"

definition match_sentence :: "match \<Rightarrow> ustr" where
  "match_sentence m =
     busca m @ ascii '' busca '' @ habilidad m @ ascii '', y '' @ ofrece m @ ascii '' la ofrece.''"

definition render :: "app_state \<Rightarrow> skill_card list \<times> ustr list" where
  "render st =
     (map skill_card_of (filtered_skills (filterType st) (skills st)),
      if length (get_matches (skills st)) = 0 then [no_matches_text]
      else map match_sentence (get_matches (skills st)))"


subsection \<open>Lemmas\<close>

lemma match_sentence_suffix: "suffix (ascii '' la ofrece.'') (match_sentence m)"
  unfolding suffix_def match_sentence_def
  by (rule exI [of _ "busca m @ ascii '' busca '' @ habilidad m @ ascii '', y '' @ ofrece m"]) simp

lemma match_sentence_not_empty_text: "match_sentence m \<noteq> no_matches_text"
proof
  assume "match_sentence m = no_matches_text"
  then have "suffix (ascii '' la ofrece.'') no_matches_text"
    using match_sentence_suffix [of m] by simp
  then show False
    by (simp add: no_matches_text_def suffix_to_prefix)
qed

subsection \<open>Properties of the view\<close>

text \<open>C25. The page shows the sentence \<open>"A\<close>U+00FA\<open>n no hay coincidencias."\<close>
  exactly when \<open>getMatches()\<close> is empty; otherwise it shows one sentence per match, in
  the order of \<open>getMatches()\<close>, and none of them is that sentence.\<close>

theorem render_no_matches_iff:
  "(no_matches_text \<in> set (snd (render st)) \<longleftrightarrow> get_matches (skills st) = []) \<and>
   length (snd (render st)) = max 1 (length (get_matches (skills st)))"
  by (cases "get_matches (skills st)") (auto simp: render_def match_sentence_not_empty_text [symmetric])

text \<open>C26. With the filter \<open>'ofrece'\<close> or \<open>'busca'\<close> selected, the page shows one card per
  entry of that type, in list order, and every card carries the label of the selected type.\<close>

theorem render_cards_filter:
  assumes "filterType st = kind_ofrece \<or> filterType st = kind_busca"
  shows "map card_name (fst (render st)) = map name (filter (\<lambda>s. type s = filterType st) (skills st)) \<and>
         (\<forall>c\<in>set (fst (render st)).
            card_label c = (if filterType st = kind_ofrece then label_ofrece else label_busca))"
  using assms by (auto simp: render_def filtered_skills_def skill_card_of_def)

theorem render_cards_filter_witness:
  "(filterType \<lparr>skills = [\<lparr>name = ascii ''Yoga'', user = ascii ''Ana'', type = kind_ofrece\<rparr>,
                           \<lparr>name = ascii ''Cocina'', user = ascii ''Luis'', type = kind_busca\<rparr>],
                 newSkill = empty_skill, filterType = kind_busca, stored = None\<rparr> = kind_ofrece \<or>
    filterType \<lparr>skills = [\<lparr>name = ascii ''Yoga'', user = ascii ''Ana'', type = kind_ofrece\<rparr>,
                           \<lparr>name = ascii ''Cocina'', user = ascii ''Luis'', type = kind_busca\<rparr>],
                 newSkill = empty_skill, filterType = kind_busca, stored = None\<rparr> = kind_busca) \<and>
   fst (render \<lparr>skills = [\<lparr>name = ascii ''Yoga'', user = ascii ''Ana'', type = kind_ofrece\<rparr>,
                           \<lparr>name = ascii ''Cocina'', user = ascii ''Luis'', type = kind_busca\<rparr>],
                 newSkill = empty_skill, filterType = kind_busca, stored = None\<rparr>)
   = [\<lparr>card_name = ascii ''Cocina'', card_user = ascii ''Luis'', card_label = label_busca\<rparr>]"
  using render_cards_filter [of "\<lparr>skills = [\<lparr>name = ascii ''Yoga'', user = ascii ''Ana'', type = kind_ofrece\<rparr>,
                           \<lparr>name = ascii ''Cocina'', user = ascii ''Luis'', type = kind_busca\<rparr>],
                 newSkill = empty_skill, filterType = kind_busca, stored = None\<rparr>"]
  by (simp add: render_def filtered_skills_def skill_card_of_def)

end
