(* ===== verification/Page.thy ===== *)
theory Page
  imports View
begin

text \<open>
  The element tree \<open>TruekaApp\<close> returns (src/src/App.jsx lines 51 to 150), written out
  node by node. A node is an element with its tag (an HTML tag or the name of a UI library
  component), its string-valued props (\<open>value\<close> and \<open>placeholder\<close>), the handler
  prop it binds (\<open>bind\<close>: which of the component's handlers its \<open>onChange\<close>,
  \<open>onValueChange\<close> or \<open>onClick\<close> calls) and its children, or a text node. The props
  \<open>className\<close> and \<open>key\<close> only style and identify nodes and are left out. An array
  child (\<open>filteredSkills.map(...)\<close>, \<open>getMatches().map(...)\<close>) is spliced into the
  children of its parent, as React renders it; JSX text on one line keeps its spaces, and
  lines that hold only white space and a line break are dropped.

  \<open>can_emit\<close> reads the tree as the set of events its controls can deliver: an input
  delivers any text, a select the value of one of its \<open>SelectItem\<close>s, a button its
  click. It is shown to be exactly \<open>ui_event\<close>, the assumption under which the
  reachable states of theory \<open>App\<close> are defined. \<open>bound_value\<close> reads the \<open>value\<close>
  prop of a control; the controls are shown to display the state.
\<close>

datatype bind = BindName | BindUser | BindType | BindAdd | BindFilter

datatype vnode = El ustr "(ustr \<times> ustr) list" "bind option" "vnode list" | Txt ustr

definition skill_node :: "skill \<Rightarrow> vnode" where
  "skill_node skill =
     El (ascii ''Card'') [] None
       [El (ascii ''CardContent'') [] None
          [El (ascii ''h2'') [] None [Txt (name skill)],
           El (ascii ''p'') [] None [Txt (ascii ''Usuario: ''), El (ascii ''span'') [] None [Txt (user skill)]],
           El (ascii ''p'') [] None
             [Txt (if type skill = ascii ''ofrece'' then ascii ''Ofrece'' else ascii ''Busca'')]]]"

definition match_node :: "match \<Rightarrow> vnode" where
  "match_node m =
     El (ascii ''Card'') [] None
       [El (ascii ''CardContent'') [] None
          [El (ascii ''p'') [] None
             [El (ascii ''strong'') [] None [Txt (busca m)], Txt (ascii '' busca ''),
              El (ascii ''strong'') [] None [Txt (habilidad m)], Txt (ascii '', y ''),
              El (ascii ''strong'') [] None [Txt (ofrece m)], Txt (ascii '' la ofrece.'')]]]"

definition select_item :: "ustr \<Rightarrow> ustr \<Rightarrow> vnode" where
  "select_item v label = El (ascii ''SelectItem'') [(ascii ''value'', v)] None [Txt label]"

definition form_panel :: "app_state \<Rightarrow> vnode" where
  "form_panel st =
     El (ascii ''div'') [] None
       [El (ascii ''h2'') [] None [Txt (ascii ''Agregar nueva habilidad'')],
        El (ascii ''div'') [] None
          [El (ascii ''div'') [] None
             [El (ascii ''Label'') [] None [Txt (ascii ''Habilidad'')],
              El (ascii ''Input'') [(ascii ''value'', name (newSkill st)),
                                    (ascii ''placeholder'', ascii ''Ej. Clases de costura'')] (Some BindName) []],
           El (ascii ''div'') [] None
             [El (ascii ''Label'') [] None [Txt (ascii ''Tu nombre'')],
              El (ascii ''Input'') [(ascii ''value'', user (newSkill st)),
                                    (ascii ''placeholder'', ascii ''Ej. Mar'' @ [237] @ ascii ''a'')] (Some BindUser) []],
           El (ascii ''div'') [] None
             [El (ascii ''Label'') [] None [Txt (ascii ''Tipo'')],
              El (ascii ''Select'') [(ascii ''value'', type (newSkill st))] (Some BindType)
                [El (ascii ''SelectTrigger'') [] None [El (ascii ''SelectValue'') [] None []],
                 El (ascii ''SelectContent'') [] None
                   [select_item (ascii ''ofrece'') (ascii ''Ofrece''),
                    select_item (ascii ''busca'') (ascii ''Busca'')]]]],
        El (ascii ''Button'') [] (Some BindAdd) [Txt (ascii ''Agregar habilidad'')]]"

definition filter_panel :: "app_state \<Rightarrow> vnode" where
  "filter_panel st =
     El (ascii ''div'') [] None
       [El (ascii ''Label'') [] None [Txt (ascii ''Filtrar por tipo:'')],
        El (ascii ''Select'') [(ascii ''value'', filterType st)] (Some BindFilter)
          [El (ascii ''SelectTrigger'') [] None [El (ascii ''SelectValue'') [] None []],
           El (ascii ''SelectContent'') [] None
             [select_item (ascii ''todos'') (ascii ''Todos''),
              select_item (ascii ''ofrece'') (ascii ''Solo los que ofrecen''),
              select_item (ascii ''busca'') (ascii ''Solo los que buscan'')]]]"

definition cards_grid :: "app_state \<Rightarrow> vnode" where
  "cards_grid st = El (ascii ''div'') [] None (map skill_node (filtered_skills (filterType st) (skills st)))"

definition matches_panel :: "app_state \<Rightarrow> vnode" where
  "matches_panel st =
     El (ascii ''div'') [] None
       (El (ascii ''h2'') [] None [Txt (ascii ''Coincidencias encontradas'')] #
        (if length (get_matches (skills st)) = 0 then [El (ascii ''p'') [] None [Txt no_matches_text]]
         else map match_node (get_matches (skills st))))"

definition page :: "app_state \<Rightarrow> vnode" where
  "page st =
     El (ascii ''div'') [] None
       [El (ascii ''h1'') [] None [Txt (ascii ''Trueka'')],
        El (ascii ''p'') [] None [Txt (ascii ''Intercambia habilidades con tu comunidad'')],
        El (ascii ''div'') [] None
          [El (ascii ''p'') [] None [Txt (ascii ''Publicidad'')],
           El (ascii ''div'') [] None
             [El (ascii ''p'') [] None [Txt (ascii ''[Espacio para anuncio de Google AdSense o patrocinador local]'')]]],
        form_panel st, filter_panel st, cards_grid st, matches_panel st]"

subsection \<open>Reading the tree\<close>

text \<open>The values of the \<open>SelectItem\<close>s in a subtree, in document order.\<close>

fun item_values :: "vnode \<Rightarrow> ustr list" where
  "item_values (Txt s) = []"
| "item_values (El tag props b cs) =
     (if tag = ascii ''SelectItem'' then (case map_of props (ascii ''value'') of None \<Rightarrow> [] | Some v \<Rightarrow> [v])
      else []) @ concat (map item_values cs)"

text \<open>The events a control bound to \<open>b\<close> delivers, given the item values below it.\<close>

definition delivers :: "bind \<Rightarrow> ustr list \<Rightarrow> event \<Rightarrow> bool" where
  "delivers b items e =
     (case (b, e) of
        (BindName, EditName v) \<Rightarrow> True
      | (BindUser, EditUser v) \<Rightarrow> True
      | (BindType, EditType v) \<Rightarrow> v \<in> set items
      | (BindAdd, ClickAdd) \<Rightarrow> True
      | (BindFilter, ChooseFilter v) \<Rightarrow> v \<in> set items
      | _ \<Rightarrow> False)"

fun can_emit :: "vnode \<Rightarrow> event \<Rightarrow> bool" where
  "can_emit (Txt s) e = False"
| "can_emit (El tag props b cs) e =
     ((case b of None \<Rightarrow> False | Some bd \<Rightarrow> delivers bd (concat (map item_values cs)) e) \<or>
      (\<exists>c\<in>set cs. can_emit c e))"

text \<open>The \<open>value\<close> prop of the first control bound to \<open>b\<close>, in document order.\<close>

fun bound_value :: "bind \<Rightarrow> vnode \<Rightarrow> ustr option" where
  "bound_value b (Txt s) = None"
| "bound_value b (El tag props bo cs) =
     (if bo = Some b then map_of props (ascii ''value'')
      else fold (\<lambda>c acc. case acc of None \<Rightarrow> bound_value b c | Some v \<Rightarrow> Some v) cs None)"

subsection \<open>Lemmas\<close>

lemma skill_node_passive [simp]:
  "can_emit (skill_node s) e = False" "item_values (skill_node s) = []" "bound_value b (skill_node s) = None"
  by (simp_all add: skill_node_def)

lemma match_node_passive [simp]:
  "can_emit (match_node m) e = False" "item_values (match_node m) = []" "bound_value b (match_node m) = None"
  by (simp_all add: match_node_def)

lemma fold_found [simp]:
  "fold (\<lambda>c acc. case acc of None \<Rightarrow> f c | Some v \<Rightarrow> Some v) cs (Some v) = Some v"
  by (induction cs) simp_all

lemma fold_passive:
  "\<forall>c\<in>set cs. f c = None \<Longrightarrow> fold (\<lambda>c acc. case acc of None \<Rightarrow> f c | Some v \<Rightarrow> Some v) cs None = None"
  by (induction cs) simp_all

lemma bound_value_form_panel:
  "bound_value b (form_panel st) =
     (case b of BindName \<Rightarrow> Some (name (newSkill st)) | BindUser \<Rightarrow> Some (user (newSkill st))
      | BindType \<Rightarrow> Some (type (newSkill st)) | _ \<Rightarrow> None)"
  by (cases b) (simp_all add: form_panel_def select_item_def)

lemma bound_value_filter_panel:
  "bound_value b (filter_panel st) = (if b = BindFilter then Some (filterType st) else None)"
  by (cases b) (simp_all add: filter_panel_def select_item_def)

lemma page_passive_parts [simp]:
  "bound_value b (cards_grid st) = None" "bound_value b (matches_panel st) = None"
  "can_emit (cards_grid st) e = False" "can_emit (matches_panel st) e = False"
  by (simp_all add: cards_grid_def matches_panel_def fold_passive)

subsection \<open>Properties of the page\<close>

text \<open>C12. The controls are controlled by the state: the name and user inputs show the
  draft's name and user, the type select shows the draft's type and the filter select
  shows \<open>filterType\<close> (the \<open>value\<close> props of lines 70, 79, 87 and 107).\<close>

theorem page_controlled_values:
  "bound_value BindName (page st) = Some (name (newSkill st)) \<and>
   bound_value BindUser (page st) = Some (user (newSkill st)) \<and>
   bound_value BindType (page st) = Some (type (newSkill st)) \<and>
   bound_value BindFilter (page st) = Some (filterType st)"
  by (simp add: page_def bound_value_form_panel bound_value_filter_panel)

text \<open>C11. The events the page's controls can deliver are exactly those of \<open>ui_event\<close>:
  any text from the two inputs, \<open>'ofrece'\<close> or \<open>'busca'\<close> from the type select,
  \<open>'todos'\<close>, \<open>'ofrece'\<close> or \<open>'busca'\<close> from the filter select, and the click of
  the button; the cards and matches bind no handler. The reachable states of \<open>App\<close> are
  thus the states a user can reach through this markup.\<close>

theorem page_emits_ui_events: "can_emit (page st) e \<longleftrightarrow> ui_event e"
  by (cases e) (simp_all add: page_def form_panel_def filter_panel_def select_item_def delivers_def
      ui_event_def type_options_def filter_options_def kind_ofrece_def kind_busca_def filter_todos_def)

text \<open>C13. After a successful press of the button the form is cleared on the page: the
  inputs show empty text, the type select shows \<open>'ofrece'\<close>, and the filter is kept.\<close>

theorem page_form_cleared:
  assumes "add_guard st"
  shows "bound_value BindName (page (app_event st ClickAdd)) = Some [] \<and>
         bound_value BindUser (page (app_event st ClickAdd)) = Some [] \<and>
         bound_value BindType (page (app_event st ClickAdd)) = Some kind_ofrece \<and>
         bound_value BindFilter (page (app_event st ClickAdd)) = Some (filterType st)"
  using assms
  by (simp add: page_def bound_value_form_panel bound_value_filter_panel handle_add_skill_def
      save_effect_def empty_skill_def)

theorem page_form_cleared_witness:
  "add_guard \<lparr>skills = [], newSkill = \<lparr>name = ascii ''Yoga'', user = ascii ''Ana'', type = kind_busca\<rparr>,
              filterType = kind_busca, stored = None\<rparr> \<and>
   bound_value BindType (page (app_event \<lparr>skills = [], newSkill = \<lparr>name = ascii ''Yoga'', user = ascii ''Ana'',
              type = kind_busca\<rparr>, filterType = kind_busca, stored = None\<rparr> ClickAdd)) = Some kind_ofrece"
  using page_form_cleared [of "\<lparr>skills = [], newSkill = \<lparr>name = ascii ''Yoga'', user = ascii ''Ana'', type = kind_busca\<rparr>,
              filterType = kind_busca, stored = None\<rparr>"]
  by (simp add: add_guard_def js_truthy_str_def)

end
