(* ===== verification/Spec2Isabelle.thy ===== *)
theory Spec2Isabelle
  imports Page
begin

text \<open>
  \<^bold>\<open>Trueka: a verification development of src/src/App.jsx.\<close>

  \<^emph>\<open>The program.\<close> The repository is one React function component, \<open>TruekaApp\<close>
  (src/src/App.jsx), a community skill-exchange board. Its state is three \<open>useState\<close>
  hooks (lines 12 to 14): \<open>skills\<close> (the list of posted entries \<open>{name, user, type}\<close>,
  type \<open>'ofrece'\<close> or \<open>'busca'\<close>), \<open>newSkill\<close> (the draft entry of the form) and
  \<open>filterType\<close> (\<open>'todos'\<close>, \<open>'ofrece'\<close> or \<open>'busca'\<close>). Two effects keep the
  list in the browser's \<open>localStorage\<close> under the key \<open>'skills'\<close>: the first (lines 16
  to 19), on mount, reads the key and replaces the list by \<open>JSON.parse\<close> of it; the
  second (lines 21 to 23), after every change of \<open>skills\<close>, writes
  \<open>JSON.stringify(skills)\<close>. \<open>handleAddSkill\<close> (lines 25 to 30) appends the draft when
  its name and user are non-empty and resets the draft. Every render computes
  \<open>filteredSkills\<close> (lines 32 to 34) and \<open>getMatches()\<close> (lines 36 to 49: for every seek,
  every offer whose name is equal ignoring case) and shows them (lines 119 to 148); the
  inputs, selects and button of lines 68 to 116 call the handlers.

  \<^emph>\<open>The library.\<close> Theories in import order:
  \<^item> \<open>Prelude\<close>: strings as lists of UTF-16 code units (\<open>ustr\<close>), \<open>ascii\<close> for
    literals, the collection \<open>model_defs\<close>, and the generic list lemmas (lexicographic
    order of a nested comprehension, \<open>filter\<close> as a selection of indices, grouping a sum
    by a key).
  \<^item> \<open>JS_String\<close>: the built-ins the component calls on strings: truthiness
    (\<open>js_truthy_str\<close>) and \<open>String.prototype.toLowerCase\<close> (\<open>lower_units\<close>,
    \<open>to_lower\<close>) with the UnicodeData table \<open>lower_rows\<close> of the cased letters of the
    Basic Multilingual Plane (Latin, Greek, Cyrillic, Armenian, Georgian, Cherokee,
    Glagolitic, Coptic, letterlike and fullwidth forms), plus the one code unit that
    lower-cases to two (U+0130); below U+00C0 it is ASCII case folding
    (\<open>ascii_fold\<close>).
  \<^item> \<open>Skills\<close>: the entry record \<open>skill\<close>, \<open>filtered_skills\<close>, \<open>offers_of\<close>,
    \<open>requests_of\<close>, \<open>match_of\<close>, \<open>same_skill_name\<close>, \<open>get_matches\<close> and the abstract
    specification \<open>match_pairs\<close>. \<open>get_matches\<close> refines \<open>match_pairs\<close> (exactly its
    pairs, each once, in lexicographic order of seek and offer position); membership, the
    count formula of the specification, the effect of appending an entry and the laws of
    the filter follow, and the comparison is ASCII case folding on names below U+00C0.
  \<^item> \<open>Json\<close>: JSON values and \<open>JSON.stringify\<close> (\<open>stringify\<close>, with the escapes of
    QuoteJSONString, surrogate pairs and lone surrogates included) and the key order of
    objects (\<open>obj_put\<close>: array-index keys first in increasing order, then creation order).
  \<^item> \<open>Json_Parse\<close>: \<open>JSON.parse\<close> as a recursive-descent parser over code units with a
    fuel argument and \<open>SyntaxError\<close> as a value. The fuel is the length of the text plus
    one; every call spends one unit and strictly shortens the input, and the lemmas prove
    that this fuel is always enough, so the parser is total. The round trip
    \<open>JSON.parse (JSON.stringify v) = v\<close> holds for every value without numbers whose
    object keys are distinct and in enumeration order.
  \<^item> \<open>Snapshot\<close>: the snapshot text effect 2 writes (\<open>snapshot_text\<close>), its reading by
    effect 1 (\<open>decode_skills\<close>) and their round trip for every list of entries.
  \<^item> \<open>App\<close>: the component as a state machine: the record \<open>app_state\<close> of the three
    hooks and the stored key; \<open>mount\<close> (initial render, effect 1, effect 2, the
    re-render after \<open>setSkills\<close>, effect 2 again) and \<open>strict_mount\<close> (React's
    development double run of effects); the handlers \<open>set_name\<close>, \<open>set_user\<close>,
    \<open>set_type\<close>, \<open>set_filter\<close>, \<open>handle_add_skill\<close> and the event step
    \<open>app_event\<close>, and sequences of events \<open>run_events\<close>; the reachable states
    \<open>reachable\<close> as an inductive predicate. Its lemmas show the invariant \<open>app_inv\<close>
    (the stored text is the JSON of the list, the draft type and the filter are select
    values) and the well-formedness of entries by rule induction, that the list only grows
    at its end (per event and over any sequence), that an incomplete draft is rejected,
    that an entry can always be posted, that every list is restored on mount, and what
    happens on a malformed or non-array snapshot and under StrictMode.
  \<^item> \<open>View\<close>: the content of the page (\<open>render\<close>): the cards of the filtered entries
    and the sentences of the matches.
  \<^item> \<open>Page\<close>: the element tree the component returns (\<open>page\<close>, lines 51 to 150) node by
    node, with the value props and the handler bindings of its controls. Its controls
    deliver exactly the events \<open>ui_event\<close> admits (so the reachable states of \<open>App\<close> are those a user reaches through this
    markup), and the controls show the state.
  The section below joins them: reloading in any reachable state restores the list, the
  two typed views partition the board (as multisets), and posting a seek through the form
  extends the matches at the end.

  \<^emph>\<open>Assumptions on the runtime.\<close> React runs the passive effects of a commit in their
  order of declaration; an exception thrown by an effect skips the component's remaining
  effects and unmounts the tree (no error boundary is present); the update queue applies
  the last \<open>setSkills\<close> of a batch; a \<open>Select\<close> reports only the values of its items.
  The repository holds no entry file, so whether the component runs under
  \<open><React.StrictMode>\<close> is not known: \<open>strict_mount\<close> and its lemma describe a
  development build that wraps it, \<open>mount\<close> every other build.
  \<open>localStorage\<close> is one slot holding a string or nothing; writes do not fail.

  \<^emph>\<open>Not modelled.\<close> The \<open>className\<close> and \<open>key\<close> props of the markup, the
  UI library components (\<open>@/components/ui/*\<close>, not in the repository) beyond the events
  their controls report, React's scheduler beyond the order of renders and effects of one
  component, the text of JSON numbers (never written by the component; a stored number
  is read as a value that is not an array), \<open>localStorage\<close> quota errors, and
  three parts of \<open>toLowerCase\<close>, which is why that component is only partly
  modelled: the Latin Extended-D and -E blocks and later Unicode additions, the letters
  outside the Basic Multilingual Plane (a JavaScript string holds them as surrogate pairs
  and the engine maps the pair as one code point, while the model maps code units and
  leaves surrogates unchanged), and the context-dependent Final_Sigma rule (a final capital
  sigma lower-cases to U+03C2; the model gives U+03C3), whose conditions use the Cased and
  Case_Ignorable properties of the whole of Unicode. The component itself contains no
  other code: every statement of src/src/App.jsx that computes or changes state is a
  definition of this development.
\<close>

section \<open>Properties across components\<close>

text \<open>C2. Reloading the page in any reachable state restores it: the stored text, read by
  a fresh mount, gives back the same list (the draft and the filter are reset, as they
  are not persisted). This joins the invariant of App, the encoding of Snapshot and the
  round trip of Json_Parse.\<close>

theorem reload_restores:
  assumes "reachable st0 st"
  shows "mount (stored st) =
           Running \<lparr>skills = skills st, newSkill = empty_skill, filterType = filter_todos,
                    stored = stored st\<rparr>"
proof -
  have "app_inv st"
    using assms by (induction rule: reachable.induct) (auto intro: mount_app_inv app_event_inv)
  then have "stored st = Some (snapshot_text (skills st))"
    by (simp add: app_inv_def)
  then show ?thesis
    by (simp add: mount_def load_snapshot commit_updates_def save_effect_def initial_state_def)
qed

theorem reload_restores_witness:
  "reachable None \<lparr>skills = [], newSkill = empty_skill, filterType = filter_todos,
                    stored = Some (snapshot_text [])\<rparr> \<and>
   mount (Some (snapshot_text [])) =
     Running \<lparr>skills = [], newSkill = empty_skill, filterType = filter_todos,
              stored = Some (snapshot_text [])\<rparr>"
proof -
  have r: "reachable None \<lparr>skills = [], newSkill = empty_skill, filterType = filter_todos,
                           stored = Some (snapshot_text [])\<rparr>"
    by (rule reachable.mounted)
      (simp add: mount_def load_effect_def commit_updates_def save_effect_def initial_state_def)
  show ?thesis using r reload_restores [OF r] by simp
qed

text \<open>C10. The two filtered views partition the board: in every state reachable from a
  snapshot of well-formed entries, the entries shown under \<open>'ofrece'\<close> and those shown
  under \<open>'busca'\<close> together are exactly the entries shown under \<open>'todos'\<close>, each as
  often as it occurs in the list.\<close>

theorem reachable_views_partition:
  assumes "reachable (Some (snapshot_text ss0)) st" and "\<forall>s\<in>set ss0. skill_wf s"
  shows "mset (filtered_skills kind_ofrece (skills st)) + mset (filtered_skills kind_busca (skills st)) =
         mset (filtered_skills filter_todos (skills st))"
proof -
  have wf: "\<forall>s\<in>set (skills st). skill_wf s"
    using reachable_inv_wf [OF assms] by simp
  have "filter (\<lambda>s. type s = kind_busca) (skills st) = filter (\<lambda>s. \<not> type s = kind_ofrece) (skills st)"
    using wf by (intro filter_cong) (auto simp: skill_wf_def)
  then have "mset (filtered_skills kind_busca (skills st)) =
             filter_mset (\<lambda>s. \<not> type s = kind_ofrece) (mset (skills st))"
    by (simp add: filtered_skills_def)
  moreover have "mset (filtered_skills kind_ofrece (skills st)) =
                 filter_mset (\<lambda>s. type s = kind_ofrece) (mset (skills st))"
    by (simp add: filtered_skills_def)
  ultimately show ?thesis
    by (simp add: filtered_skills_def multiset_partition [symmetric])
qed

theorem reachable_views_partition_witness:
  "reachable (Some (snapshot_text [\<lparr>name = ascii ''Yoga'', user = ascii ''Ana'', type = kind_ofrece\<rparr>,
                                    \<lparr>name = ascii ''Cocina'', user = ascii ''Luis'', type = kind_busca\<rparr>]))
     \<lparr>skills = [\<lparr>name = ascii ''Yoga'', user = ascii ''Ana'', type = kind_ofrece\<rparr>,
                 \<lparr>name = ascii ''Cocina'', user = ascii ''Luis'', type = kind_busca\<rparr>],
      newSkill = empty_skill, filterType = filter_todos,
      stored = Some (snapshot_text [\<lparr>name = ascii ''Yoga'', user = ascii ''Ana'', type = kind_ofrece\<rparr>,
                                    \<lparr>name = ascii ''Cocina'', user = ascii ''Luis'', type = kind_busca\<rparr>])\<rparr> \<and>
   skill_wf \<lparr>name = ascii ''Yoga'', user = ascii ''Ana'', type = kind_ofrece\<rparr> \<and>
   skill_wf \<lparr>name = ascii ''Cocina'', user = ascii ''Luis'', type = kind_busca\<rparr> \<and>
   mset (filtered_skills kind_ofrece [\<lparr>name = ascii ''Yoga'', user = ascii ''Ana'', type = kind_ofrece\<rparr>,
                                      \<lparr>name = ascii ''Cocina'', user = ascii ''Luis'', type = kind_busca\<rparr>]) +
   mset (filtered_skills kind_busca [\<lparr>name = ascii ''Yoga'', user = ascii ''Ana'', type = kind_ofrece\<rparr>,
                                      \<lparr>name = ascii ''Cocina'', user = ascii ''Luis'', type = kind_busca\<rparr>]) =
   mset [\<lparr>name = ascii ''Yoga'', user = ascii ''Ana'', type = kind_ofrece\<rparr>,
         \<lparr>name = ascii ''Cocina'', user = ascii ''Luis'', type = kind_busca\<rparr>]"
proof -
  let ?ss = "[\<lparr>name = ascii ''Yoga'', user = ascii ''Ana'', type = kind_ofrece\<rparr>,
              \<lparr>name = ascii ''Cocina'', user = ascii ''Luis'', type = kind_busca\<rparr>]"
  let ?st = "\<lparr>skills = ?ss, newSkill = empty_skill, filterType = filter_todos,
              stored = Some (snapshot_text ?ss)\<rparr>"
  have r: "reachable (Some (snapshot_text ?ss)) ?st"
    by (rule reachable.mounted)
      (simp add: mount_def load_snapshot commit_updates_def save_effect_def initial_state_def)
  have wf: "\<forall>s\<in>set ?ss. skill_wf s"
    by (simp add: skill_wf_def js_truthy_str_def)
  show ?thesis
    using r wf reachable_views_partition [OF r wf] by (simp add: filtered_skills_def)
qed

text \<open>C24. Posting a seek through the form extends the displayed matches at the end with
  the seek's matches against the current offers, in offer order; earlier matches are
  unchanged.\<close>

theorem add_request_matches:
  assumes "add_guard st" and "type (newSkill st) = kind_busca"
  shows "get_matches (skills (app_event st ClickAdd)) =
           get_matches (skills st) @
           map (match_of (newSkill st)) (filter (\<lambda>off. same_skill_name off (newSkill st)) (offers_of (skills st)))"
  using assms by (simp add: handle_add_skill_def save_effect_def get_matches_def offers_of_def requests_of_def)

theorem add_request_matches_witness:
  "add_guard \<lparr>skills = [\<lparr>name = ascii ''Yoga'', user = ascii ''Ana'', type = kind_ofrece\<rparr>],
              newSkill = \<lparr>name = ascii ''yoga'', user = ascii ''Carla'', type = kind_busca\<rparr>,
              filterType = filter_todos, stored = None\<rparr> \<and>
   type (newSkill \<lparr>skills = [\<lparr>name = ascii ''Yoga'', user = ascii ''Ana'', type = kind_ofrece\<rparr>],
              newSkill = \<lparr>name = ascii ''yoga'', user = ascii ''Carla'', type = kind_busca\<rparr>,
              filterType = filter_todos, stored = None\<rparr>) = kind_busca \<and>
   get_matches (skills (app_event \<lparr>skills = [\<lparr>name = ascii ''Yoga'', user = ascii ''Ana'', type = kind_ofrece\<rparr>],
              newSkill = \<lparr>name = ascii ''yoga'', user = ascii ''Carla'', type = kind_busca\<rparr>,
              filterType = filter_todos, stored = None\<rparr> ClickAdd))
   = [\<lparr>habilidad = ascii ''yoga'', busca = ascii ''Carla'', ofrece = ascii ''Ana''\<rparr>]"
  using add_request_matches [of "\<lparr>skills = [\<lparr>name = ascii ''Yoga'', user = ascii ''Ana'', type = kind_ofrece\<rparr>],
              newSkill = \<lparr>name = ascii ''yoga'', user = ascii ''Carla'', type = kind_busca\<rparr>,
              filterType = filter_todos, stored = None\<rparr>"]
  by (simp add: add_guard_def js_truthy_str_def get_matches_def offers_of_def requests_of_def
      same_skill_name_def match_of_def lower_units_below_192)

end
